theory Spec2Isabelle
  imports Complex_Main
begin

section \<open>Values, exceptions and log records\<close>

text \<open>
  Array cells are float64 values. The model keeps what the operator's control flow looks
  at: whether a cell is NaN, and the order of the numbers. Every float64 number is a
  rational and floats compare as these rationals do, so a number is a rational;
  infinities are not represented. What the numeric libraries compute from the cells is
  rounded: the column means of the statistics table, numpy's mean and median of the
  metrics and the metrics themselves are parameters below, not formulas.
\<close>

datatype fval = NaN | Num rat

fun isnan :: "fval \<Rightarrow> bool" where
  "isnan NaN = True"
| "isnan (Num _) = False"

text \<open>The exceptions that the modelled code paths raise or let through.\<close>

datatype py_error =
    KeyError
  | UnboundLocalError
  | ValueError
  | IndexError
  | TypeError
  | FileNotFoundError
  | AttributeError
  | LibraryError string

type_synonym sid = string

datatype level = INFO | WARN | DEBUG

text \<open>One constructor per logging call of \<open>base_model.py\<close>, in the order of the file.\<close>

datatype message =
    Building_models_completed
  | Unable_to_generate_test_metrics
  | Full_traceback
  | Unable_to_find_series sid
  | No_values_in_test_data sid
  | Missing_values_in_test_data sid
  | Training_metrics_not_generated
  | Test_metrics_not_generated
  | Global_explanations_not_formatted
  | Local_explanations_not_formatted
  | Outputs_generated
  | All_modeling_completed
  | Model_pkl_not_present
  | Calculating_explanations
  | No_explanations_generated
  | Skipping_explanations sid
  | Global_explanations_completed
  | Local_explanations_completed

type_synonym log_entry = "level \<times> message"

section \<open>Data frames\<close>

text \<open>
  A frame has column labels and labelled rows; every row carries one cell per column.
  \<open>DataFrame.empty\<close> holds when either axis has length zero.
\<close>

record 'c frame =
  cols :: "'c list"
  rows :: "(string \<times> fval list) list"

definition empty_frame :: "'c frame" where
  "empty_frame = \<lparr>cols = [], rows = []\<rparr>"

definition frame_empty :: "'c frame \<Rightarrow> bool" where
  "frame_empty f = (cols f = [] \<or> rows f = [])"

definition cell :: "'c list \<Rightarrow> fval list \<Rightarrow> 'c \<Rightarrow> fval" where
  "cell cs vs c = (case map_of (zip cs vs) c of Some v \<Rightarrow> v | None \<Rightarrow> NaN)"

definition reindex_rows :: "'c list \<Rightarrow> 'c frame \<Rightarrow> (string \<times> fval list) list" where
  "reindex_rows cs f = map (\<lambda>(l, vs). (l, map (cell (cols f) vs) cs)) (rows f)"

text \<open>
  \<open>pd.concat([a, b])\<close> stacks the rows of \<open>b\<close> under those of \<open>a\<close>; the columns are
  those of \<open>a\<close> followed by the new ones of \<open>b\<close>, and a cell a frame lacks is NaN.
\<close>

definition pd_concat :: "'c frame \<Rightarrow> 'c frame \<Rightarrow> 'c frame" where
  "pd_concat a b =
     (let cs = cols a @ filter (\<lambda>c. c \<notin> set (cols a)) (cols b)
      in \<lparr>cols = cs, rows = reindex_rows cs a @ reindex_rows cs b\<rparr>)"

text \<open>\<open>df[labels]\<close> raises KeyError when a label is not a column.\<close>

definition select_cols :: "'c list \<Rightarrow> 'c frame \<Rightarrow> py_error + 'c frame" where
  "select_cols sel f =
     (if set sel \<subseteq> set (cols f)
      then Inr \<lparr>cols = sel, rows = reindex_rows sel f\<rparr>
      else Inl KeyError)"

text \<open>A frame built from a dict of scalars and a one-element index.\<close>

definition frame_of_dict :: "('c \<times> fval) list \<Rightarrow> string \<Rightarrow> 'c frame" where
  "frame_of_dict d label = \<lparr>cols = map fst d, rows = [(label, map snd d)]\<rparr>"

section \<open>Array helpers\<close>

text \<open>\<open>xs[start:]\<close> with Python's treatment of a negative start.\<close>

definition py_slice_from :: "int \<Rightarrow> 'a list \<Rightarrow> 'a list" where
  "py_slice_from start xs =
     (let n = int (length xs);
          s = (if start < 0 then max 0 (n + start) else min start n)
      in drop (nat s) xs)"

text \<open>
  \<open>~np.isnan(y_true) & ~np.isnan(y_pred)\<close>: elementwise on equal lengths, a one-element
  operand is broadcast, any other pair of lengths raises ValueError.
\<close>

definition drop_na_mask :: "fval list \<Rightarrow> fval list \<Rightarrow> py_error + bool list" where
  "drop_na_mask y_true y_pred =
     (let a = map (\<lambda>v. \<not> isnan v) y_true;
          b = map (\<lambda>v. \<not> isnan v) y_pred
      in if length a = length b then Inr (map2 (\<and>) a b)
         else if length a = 1 then Inr (map (\<lambda>y. hd a \<and> y) b)
         else if length b = 1 then Inr (map (\<lambda>x. x \<and> hd b) a)
         else Inl ValueError)"

text \<open>\<open>xs[mask]\<close> with a boolean mask raises IndexError when the lengths differ.\<close>

definition bool_index :: "'a list \<Rightarrow> bool list \<Rightarrow> py_error + 'a list" where
  "bool_index xs m =
     (if length m \<noteq> length xs then Inl IndexError
      else Inr (map fst (filter snd (zip xs m))))"

section \<open>Test metrics\<close>

text \<open>The names of \<open>SupportedMetrics\<close> that \<open>base_model.py\<close> refers to.\<close>

datatype sm =
    SMAPE | MAPE | RMSE | R2 | EXPLAINED_VARIANCE
  | MEAN_SMAPE | MEDIAN_SMAPE
  | MEAN_MAPE | MEDIAN_MAPE
  | MEAN_WMAPE | MEDIAN_WMAPE
  | MEAN_RMSE | MEDIAN_RMSE
  | MEAN_R2 | MEDIAN_R2
  | MEAN_EXPLAINED_VARIANCE | MEDIAN_EXPLAINED_VARIANCE
  | ELAPSED_TIME

text \<open>
  Modelled from the spec: the helper \<open>_build_metrics_df\<close> is defined in
  \<open>forecast/utils.py\<close>, outside \<open>base_model.py\<close>. It returns one column, labelled with the
  series, holding sMAPE, MAPE, RMSE, R2 and explained variance. The metrics table is the
  list of these columns in the order \<open>pd.concat(..., axis=1)\<close> added them; it is empty
  exactly when it has no column. \<open>loc\<close> reads one of the five rows.
\<close>

record metrics_col =
  smape :: fval
  mape :: fval
  rmse :: fval
  r2 :: fval
  explained_variance :: fval

type_synonym metrics_table = "(sid \<times> metrics_col) list"

fun loc :: "sm \<Rightarrow> metrics_table \<Rightarrow> fval list" where
  "loc SMAPE t = map (smape \<circ> snd) t"
| "loc MAPE t = map (mape \<circ> snd) t"
| "loc RMSE t = map (rmse \<circ> snd) t"
| "loc R2 t = map (r2 \<circ> snd) t"
| "loc EXPLAINED_VARIANCE t = map (explained_variance \<circ> snd) t"
| "loc _ t = []"

text \<open>
  The test data by series: \<open>data.get_data_for_series(s_id)[data.target_name].values\<close>,
  with \<open>None\<close> where the lookup raises KeyError. The forecast output is the list of its
  series, each with the values of its column \<open>forecast_value\<close>.
\<close>

type_synonym test_data = "sid \<rightharpoonup> fval list"
type_synonym forecast_output = "(sid \<times> fval list) list"

text \<open>
  What the function takes from outside \<open>base_model.py\<close>: the two helpers of
  \<open>forecast/utils.py\<close>, numpy's mean and median, and the constant
  \<open>SUMMARY_METRICS_HORIZON_LIMIT\<close> of \<open>forecast/const.py\<close>.
\<close>

record libs =
  build_metrics_df :: "fval list \<Rightarrow> fval list \<Rightarrow> sid \<Rightarrow> py_error + metrics_col"
  build_metrics_per_horizon :: "test_data \<Rightarrow> forecast_output \<Rightarrow> py_error + sm frame"
  np_mean :: "fval list \<Rightarrow> fval"
  np_median :: "fval list \<Rightarrow> fval"
  SUMMARY_METRICS_HORIZON_LIMIT :: int

text \<open>
  The loop variables that survive an iteration: the table built so far and \<open>y_true\<close>,
  which is unbound (\<open>None\<close>) until its first assignment.
\<close>

type_synonym loop_vars = "metrics_table \<times> fval list option"

text \<open>The tail of the loop body, lines 341 to 346.\<close>

definition add_metrics ::
  "libs \<Rightarrow> metrics_table \<Rightarrow> sid \<Rightarrow> fval list \<Rightarrow> fval list \<Rightarrow> py_error + loop_vars" where
  "add_metrics L total_metrics s_id y_true y_pred =
     (case build_metrics_df L y_true y_pred s_id of
        Inl e \<Rightarrow> Inl e
      | Inr metrics_df \<Rightarrow> Inr (total_metrics @ [(s_id, metrics_df)], Some y_true))"

text \<open>
  One iteration of the loop over \<open>forecast_output.list_series_ids()\<close>, lines 316 to 346.
  The handler of KeyError logs and falls through; \<open>continue\<close> leaves the table as it is.
\<close>

definition series_step ::
  "libs \<Rightarrow> int \<Rightarrow> test_data \<Rightarrow> loop_vars \<Rightarrow> sid \<times> fval list
     \<Rightarrow> log_entry list \<times> (py_error + loop_vars)" where
  "series_step L horizon data vars entry =
     (let (total_metrics, y_true_var) = vars;
          (s_id, forecast_value) = entry;
          (lg, y_true_opt) =
            (case data s_id of
               Some target \<Rightarrow> ([], Some (py_slice_from (- horizon) target))
             | None \<Rightarrow> ([(WARN, Unable_to_find_series s_id)], y_true_var));
          y_pred = py_slice_from (- horizon) forecast_value
      in case y_true_opt of
           None \<Rightarrow> (lg, Inl UnboundLocalError)
         | Some y_true \<Rightarrow>
             (case drop_na_mask y_true y_pred of
                Inl e \<Rightarrow> (lg, Inl e)
              | Inr msk \<Rightarrow>
                  if \<not> list_all id msk then
                    if list_ex id msk then
                      (lg @ [(DEBUG, No_values_in_test_data s_id)], Inr (total_metrics, Some y_true))
                    else
                      (lg @ [(DEBUG, Missing_values_in_test_data s_id)],
                       case bool_index y_true msk of
                         Inl e \<Rightarrow> Inl e
                       | Inr y_true' \<Rightarrow>
                           (case bool_index y_pred msk of
                              Inl e \<Rightarrow> Inl e
                            | Inr y_pred' \<Rightarrow> add_metrics L total_metrics s_id y_true' y_pred'))
                  else (lg, add_metrics L total_metrics s_id y_true y_pred)))"

fun series_loop ::
  "libs \<Rightarrow> int \<Rightarrow> test_data \<Rightarrow> loop_vars \<Rightarrow> forecast_output
     \<Rightarrow> log_entry list \<times> (py_error + loop_vars)" where
  "series_loop L horizon data vars [] = ([], Inr vars)"
| "series_loop L horizon data vars (entry # rest) =
     (case series_step L horizon data vars entry of
        (lg, Inl e) \<Rightarrow> (lg, Inl e)
      | (lg, Inr vars') \<Rightarrow>
          (case series_loop L horizon data vars' rest of
             (lg', r) \<Rightarrow> (lg @ lg', r)))"

text \<open>The dict of lines 352 to 384, in its order.\<close>

definition summary_dict :: "libs \<Rightarrow> metrics_table \<Rightarrow> fval \<Rightarrow> (sm \<times> fval) list" where
  "summary_dict L total_metrics elapsed_time =
     [(MEAN_SMAPE, np_mean L (loc SMAPE total_metrics)),
      (MEDIAN_SMAPE, np_median L (loc SMAPE total_metrics)),
      (MEAN_MAPE, np_mean L (loc MAPE total_metrics)),
      (MEDIAN_MAPE, np_median L (loc MAPE total_metrics)),
      (MEAN_RMSE, np_mean L (loc RMSE total_metrics)),
      (MEDIAN_RMSE, np_median L (loc RMSE total_metrics)),
      (MEAN_R2, np_mean L (loc R2 total_metrics)),
      (MEDIAN_R2, np_median L (loc R2 total_metrics)),
      (MEAN_EXPLAINED_VARIANCE, np_mean L (loc EXPLAINED_VARIANCE total_metrics)),
      (MEDIAN_EXPLAINED_VARIANCE, np_median L (loc EXPLAINED_VARIANCE total_metrics)),
      (ELAPSED_TIME, elapsed_time)]"

definition new_column_order :: "sm list" where
  "new_column_order =
     [MEAN_SMAPE, MEDIAN_SMAPE, MEAN_MAPE, MEDIAN_MAPE, MEAN_WMAPE, MEDIAN_WMAPE,
      MEAN_RMSE, MEDIAN_RMSE, MEAN_R2, MEDIAN_R2,
      MEAN_EXPLAINED_VARIANCE, MEDIAN_EXPLAINED_VARIANCE, ELAPSED_TIME]"

type_synonym metrics_result = "metrics_table \<times> sm frame \<times> test_data"

text \<open>Lines 348 to 415: what follows the loop.\<close>

definition summarise ::
  "libs \<Rightarrow> int \<Rightarrow> fval \<Rightarrow> test_data \<Rightarrow> forecast_output \<Rightarrow> metrics_table
     \<Rightarrow> py_error + metrics_result" where
  "summarise L horizon elapsed_time data output total_metrics =
     (if total_metrics = [] then Inr (total_metrics, empty_frame, data)
      else
        let summary_metrics =
              frame_of_dict (summary_dict L total_metrics elapsed_time) ''All Targets''
        in if horizon \<le> SUMMARY_METRICS_HORIZON_LIMIT L then
             (case build_metrics_per_horizon L data output of
                Inl e \<Rightarrow> Inl e
              | Inr metrics_per_horizon \<Rightarrow>
                  if \<not> frame_empty metrics_per_horizon then
                    (case select_cols new_column_order
                            (pd_concat summary_metrics metrics_per_horizon) of
                       Inl e \<Rightarrow> Inl e
                     | Inr summary_metrics' \<Rightarrow> Inr (total_metrics, summary_metrics', data))
                  else Inr (total_metrics, summary_metrics, data))
           else Inr (total_metrics, summary_metrics, data))"

text \<open>
  \<open>_test_evaluate_metrics\<close> from line 314 on, for the test data that line 312 built and
  the forecast output of the object: the log, and the exception or the three results.
\<close>

definition test_evaluate_metrics ::
  "libs \<Rightarrow> int \<Rightarrow> fval \<Rightarrow> test_data \<Rightarrow> forecast_output
     \<Rightarrow> log_entry list \<times> (py_error + metrics_result)" where
  "test_evaluate_metrics L horizon elapsed_time data output =
     (case series_loop L horizon data ([], None) output of
        (lg, Inl e) \<Rightarrow> (lg, Inl e)
      | (lg, Inr (total_metrics, y_true_var)) \<Rightarrow>
          (lg, summarise L horizon elapsed_time data output total_metrics))"

section \<open>The report\<close>

type_synonym backtest_stats = "(string \<times> fval list) list"

datatype table =
    Metrics_table metrics_table
  | Summary_table "sm frame"
  | Frame_table "string frame"
  | Backtest_table backtest_stats

text \<open>
  The blocks of the report. \<open>Summary_block\<close> is the block of lines 142 to 228 (header and
  data previews) around the model's description, and the accessors of the datasets it
  calls are taken to return; \<open>Average_scores_text\<close> is the text of line 259 with the
  averages and the best model it prints; \<open>Model_block\<close> is a block only the model family
  knows.
\<close>

datatype report_section =
    Summary_block string
  | Heading string nat
  | DataTable table
  | Average_scores_text "(string \<times> fval) list" string
  | Auto_select_plot backtest_stats
  | Forecast_plots forecast_output "test_data option"
  | Yaml_appendix
  | Model_block string

record operator_spec =
  spec_model :: string
  spec_horizon :: int
  spec_previous_output_dir :: "string option"
  spec_test_data :: "string option"
  spec_output_directory :: string
  spec_generate_report :: bool
  spec_generate_metrics :: bool
  spec_generate_explanations :: bool
  spec_generate_model_parameters :: bool
  spec_generate_model_pickle :: bool
  spec_explanations_accuracy_mode :: string

text \<open>The data of one series: column labels and rows of cells.\<close>

record series_data =
  sd_columns :: "string list"
  sd_rows :: "fval list list"

text \<open>
  The attributes of the model object that the modelled methods read or write. A fitted
  model, the loaded pickle and the model parameters are opaque and stand as strings.
\<close>

record model_self =
  test_eval_metrics :: "metrics_table option"
  eval_metrics :: "string frame option"
  forecast_output :: "forecast_output option"
  models :: "(sid \<rightharpoonup> string) option"
  loaded_models :: "string option"
  model_parameters :: "(sid \<times> string) list"
  errors_dict :: "(sid \<times> string) list"
  formatted_global_explanation :: "string frame option"
  formatted_local_explanation :: "string frame option"
  global_explanation :: "sid \<rightharpoonup> (string \<times> fval) list"
  local_explanation :: "sid \<rightharpoonup> series_data"
  original_target_column :: string
  has_artificial_series :: bool

text \<open>
  What the two abstract methods hand back. \<open>_build_model\<close> returns the result table and
  populates the forecast output, the fitted models, their parameters and the errors;
  \<open>_generate_report\<close> returns the description and the model's sections and leaves the
  formatted explanations on the object.
\<close>

record built =
  built_forecast_output :: "forecast_output option"
  built_models :: "(sid \<rightharpoonup> string) option"
  built_model_parameters :: "(sid \<times> string) list"
  built_errors_dict :: "(sid \<times> string) list"

record model_report =
  model_description :: string
  other_sections :: "report_section list"
  report_global_explanation :: "string frame option"
  report_local_explanation :: "string frame option"

text \<open>
  The collaborators of \<open>generate_report\<close>: the abstract methods, the helpers of
  \<open>forecast/utils.py\<close>, the \<open>TestData\<close> constructor, the pickle loader, the files that
  \<open>pd.read_csv\<close> finds, \<open>DataFrame.mean()\<close> on one column of such a file, and the time
  the clock measured for the build.
\<close>

record collaborators =
  metrics_libs :: libs
  build_model :: "py_error + string frame \<times> built"
  evaluate_train_metrics :: "forecast_output option \<Rightarrow> py_error + string frame option"
  model_generate_report :: "py_error + model_report"
  new_test_data :: "py_error + test_data"
  load_pkl :: "string \<Rightarrow> py_error + string"
  csv_files :: "string \<rightharpoonup> backtest_stats"
  frame_mean :: "fval list \<Rightarrow> fval"
  elapsed_time :: fval

text \<open>\<open>pd.read_csv\<close> on a path without a file raises FileNotFoundError.\<close>

definition read_csv :: "collaborators \<Rightarrow> string \<Rightarrow> py_error + backtest_stats" where
  "read_csv C path = (case csv_files C path of None \<Rightarrow> Inl FileNotFoundError | Some t \<Rightarrow> Inr t)"

text \<open>
  \<open>_load_model\<close>: the bare \<open>except\<close> turns every failure, also the TypeError of
  \<open>None + "/model.pkl"\<close>, into one log line.
\<close>

definition load_model ::
  "collaborators \<Rightarrow> operator_spec \<Rightarrow> model_self \<Rightarrow> log_entry list \<times> model_self" where
  "load_model C S self =
     (case spec_previous_output_dir S of
        None \<Rightarrow> ([(INFO, Model_pkl_not_present)], self)
      | Some dir \<Rightarrow>
          (case load_pkl C (dir @ ''/model.pkl'') of
             Inl e \<Rightarrow> ([(INFO, Model_pkl_not_present)], self)
           | Inr m \<Rightarrow> ([], self\<lparr>loaded_models := Some m\<rparr>)))"

definition generate_train_metrics ::
  "collaborators \<Rightarrow> model_self \<Rightarrow> py_error + string frame option" where
  "generate_train_metrics C self = evaluate_train_metrics C (forecast_output self)"

text \<open>
  \<open>_test_evaluate_metrics\<close> as a method: line 312 builds the test data, line 315 reads
  the forecast output of the object, and the rest is \<open>test_evaluate_metrics\<close> above.
\<close>

definition run_test_evaluate_metrics ::
  "collaborators \<Rightarrow> operator_spec \<Rightarrow> model_self
     \<Rightarrow> log_entry list \<times> (py_error + metrics_result)" where
  "run_test_evaluate_metrics C S self =
     (case new_test_data C of
        Inl e \<Rightarrow> ([], Inl e)
      | Inr data \<Rightarrow>
          (case forecast_output self of
             None \<Rightarrow> ([], Inl AttributeError)
           | Some output \<Rightarrow>
               test_evaluate_metrics (metrics_libs C) (spec_horizon S) (elapsed_time C)
                 data output))"

text \<open>The cells of an array that are numbers.\<close>

fun numbers :: "fval list \<Rightarrow> rat list" where
  "numbers [] = []"
| "numbers (NaN # xs) = numbers xs"
| "numbers (Num r # xs) = r # numbers xs"

text \<open>The comparison \<open><\<close> of floats: false as soon as one side is NaN.\<close>

fun float_less :: "fval \<Rightarrow> fval \<Rightarrow> bool" where
  "float_less (Num a) (Num b) = (a < b)"
| "float_less _ _ = False"

text \<open>
  \<open>min(d, key=d.get)\<close> on a dict in its order: ValueError when it is empty; otherwise the
  first key is kept until a later one has a strictly smaller value.
\<close>

definition py_min_key :: "('k \<times> fval) list \<Rightarrow> py_error + 'k" where
  "py_min_key d =
     (case d of
        [] \<Rightarrow> Inl ValueError
      | kv # rest \<Rightarrow>
          Inr (fst (foldl (\<lambda>cur x. if float_less (snd x) (snd cur) then x else cur) kv rest)))"

text \<open>Lines 250 to 264.\<close>

definition backtest_sections :: "collaborators \<Rightarrow> operator_spec \<Rightarrow> py_error + report_section list" where
  "backtest_sections C S =
     (if spec_model S = ''auto-select'' then
        (case read_csv C (spec_output_directory S @ ''/'' @ ''backtest_stats.csv'') of
           Inl e \<Rightarrow> Inl e
         | Inr backtest_stats \<Rightarrow>
             let average_dict = map (\<lambda>(c, vs). (c, frame_mean C vs)) backtest_stats
             in if ''backtest'' \<notin> fst ` set average_dict then Inl KeyError
                else
                  let average_dict' = filter (\<lambda>kv. fst kv \<noteq> ''backtest'') average_dict
                  in (case py_min_key average_dict' of
                        Inl e \<Rightarrow> Inl e
                      | Inr best_model \<Rightarrow>
                          Inr [Heading ''Back Testing Metrics'' 2,
                               DataTable (Backtest_table backtest_stats),
                               Average_scores_text average_dict' best_model,
                               Auto_select_plot backtest_stats]))
      else Inr [])"

text \<open>Lines 230 to 248.\<close>

definition test_metrics_sections :: "model_self \<Rightarrow> sm frame option \<Rightarrow> report_section list" where
  "test_metrics_sections self summary_metrics =
     (case test_eval_metrics self of
        None \<Rightarrow> []
      | Some t \<Rightarrow>
          if t \<noteq> []
          then [Heading ''Test Data Evaluation Metrics'' 2, DataTable (Metrics_table t)]
          else [])
     @
     (case summary_metrics of
        None \<Rightarrow> []
      | Some m \<Rightarrow>
          if \<not> frame_empty m
          then [Heading ''Test Data Summary Metrics'' 2, DataTable (Summary_table m)]
          else [])"

definition train_metrics_sections :: "model_self \<Rightarrow> report_section list" where
  "train_metrics_sections self =
     (case eval_metrics self of
        None \<Rightarrow> []
      | Some m \<Rightarrow>
          if \<not> frame_empty m
          then [Heading ''Training Data Metrics'' 2, DataTable (Frame_table m)]
          else [])"

text \<open>
  Lines 267 to 287. The two branches of the inner test build the same list.
\<close>

definition forecast_plots :: "model_self \<Rightarrow> test_data option \<Rightarrow> py_error + report_section list" where
  "forecast_plots self test_data =
     (case forecast_output self of
        None \<Rightarrow> Inl AttributeError
      | Some output \<Rightarrow>
          if length (map fst output) > 0
          then Inr [Heading ''Forecasted Data Overlaying Historical'' 2,
                    Forecast_plots output test_data]
          else Inr [])"

text \<open>Lines 135 to 299 for a report that was asked for, after \<open>_generate_report\<close>.\<close>

definition build_report_sections ::
  "collaborators \<Rightarrow> operator_spec \<Rightarrow> model_self \<Rightarrow> sm frame option \<Rightarrow> test_data option
     \<Rightarrow> model_report \<Rightarrow> py_error + report_section list" where
  "build_report_sections C S self summary_metrics test_data rep =
     (case backtest_sections C S of
        Inl e \<Rightarrow> Inl e
      | Inr backtest \<Rightarrow>
          (case forecast_plots self test_data of
             Inl e \<Rightarrow> Inl e
           | Inr plots \<Rightarrow>
               Inr ([Summary_block (model_description rep)]
                    @ backtest
                    @ plots
                    @ other_sections rep
                    @ test_metrics_sections self summary_metrics
                    @ train_metrics_sections self
                    @ [Heading ''Reference: YAML File'' 2, Yaml_appendix])))"

section \<open>Saving the outputs\<close>

datatype artifact =
    Report_html "report_section list"
  | Forecast_csv "string frame"
  | Metrics_csv "string frame"
  | Test_metrics_csv metrics_table
  | Global_explanation_csv "string frame"
  | Local_explanation_csv "string frame"
  | Model_params_json "(sid \<times> string) list"
  | Model_pkl "(sid \<rightharpoonup> string) option"
  | Errors_json "(sid \<times> string) list"

text \<open>
  \<open>rename({"index": "metrics", "Series 1": metrics_col_name}, axis=1)\<close> on the column
  labels.
\<close>

definition rename_label :: "string \<Rightarrow> string \<Rightarrow> string" where
  "rename_label metrics_col_name c =
     (if c = ''index'' then ''metrics''
      else if c = ''Series 1'' then metrics_col_name
      else c)"

text \<open>
  \<open>_save_report\<close>, lines 417 to 574, as the list of files written, in order, and the log.
  The writers of \<open>common/utils.py\<close> are taken to return; with them the handler of
  AttributeError around the explanation files has nothing to catch.
\<close>

definition save_report ::
  "operator_spec \<Rightarrow> model_self \<Rightarrow> report_section list \<Rightarrow> string frame \<Rightarrow> string frame option
     \<Rightarrow> metrics_table option \<Rightarrow> log_entry list \<times> artifact list" where
  "save_report S self report_sections result_df metrics_df test_metrics_df =
     (let metrics_col_name =
            (if has_artificial_series self then original_target_column self else ''Series 1'');
          report = (if spec_generate_report S then ([], [Report_html report_sections]) else ([], []));
          forecast = ([], [Forecast_csv result_df]);
          train =
            (if spec_generate_metrics S then
               (case metrics_df of
                  Some m \<Rightarrow>
                    ([], [Metrics_csv (m\<lparr>cols := map (rename_label metrics_col_name) (cols m)\<rparr>)])
                | None \<Rightarrow> ([(WARN, Training_metrics_not_generated)], []))
             else ([], []));
          test =
            (if spec_generate_metrics S \<and> spec_test_data S \<noteq> None then
               (case test_metrics_df of
                  Some t \<Rightarrow>
                    ([], [Test_metrics_csv (map (\<lambda>(s, c). (rename_label metrics_col_name s, c)) t)])
                | None \<Rightarrow> ([(WARN, Test_metrics_not_generated)], []))
             else ([], []));
          global =
            (if spec_generate_explanations S then
               (case formatted_global_explanation self of
                  Some g \<Rightarrow> ([], [Global_explanation_csv g])
                | None \<Rightarrow> ([(WARN, Global_explanations_not_formatted)], []))
             else ([], []));
          local =
            (if spec_generate_explanations S then
               (case formatted_local_explanation self of
                  Some l \<Rightarrow> ([], [Local_explanation_csv l])
                | None \<Rightarrow> ([(WARN, Local_explanations_not_formatted)], []))
             else ([], []));
          params =
            (if spec_generate_model_parameters S
             then ([], [Model_params_json (model_parameters self)]) else ([], []));
          pickle =
            (if spec_generate_model_pickle S then ([], [Model_pkl (models self)]) else ([], []));
          done = ([(INFO, Outputs_generated)], []);
          errors =
            (if errors_dict self \<noteq> [] then ([], [Errors_json (errors_dict self)])
             else ([(INFO, All_modeling_completed)], []));
          steps = [report, forecast, train, test, global, local, params, pickle, done, errors]
      in (concat (map fst steps), concat (map snd steps)))"

section \<open>The run\<close>

record report_run =
  run_sections :: "report_section list"
  run_summary_metrics :: "sm frame option"
  run_artifacts :: "artifact list"
  run_self :: model_self

text \<open>
  Lines 113 to 132: the training metrics, then the test metrics inside
  \<open>try ... except Exception\<close>, which logs and goes on.
\<close>

definition metrics_stage ::
  "collaborators \<Rightarrow> operator_spec \<Rightarrow> model_self
     \<Rightarrow> log_entry list \<times> (py_error + model_self \<times> sm frame option \<times> test_data option)" where
  "metrics_stage C S self =
     (let self0 = self\<lparr>eval_metrics := None\<rparr>
      in if spec_generate_report S \<or> spec_generate_metrics S then
           (case generate_train_metrics C self0 of
              Inl e \<Rightarrow> ([], Inl e)
            | Inr m \<Rightarrow>
                let self1 = self0\<lparr>eval_metrics := m\<rparr>
                in if spec_test_data S \<noteq> None then
                     (case run_test_evaluate_metrics C S self1 of
                        (lg, Inl e) \<Rightarrow>
                          (lg @ [(WARN, Unable_to_generate_test_metrics), (DEBUG, Full_traceback)],
                           Inr (self1, None, None))
                      | (lg, Inr (total_metrics, summary_metrics, data)) \<Rightarrow>
                          (lg, Inr (self1\<lparr>test_eval_metrics := Some total_metrics\<rparr>,
                                    Some summary_metrics, Some data)))
                   else ([], Inr (self1, None, None)))
         else ([], Inr (self0, None, None)))"

text \<open>Lines 133 to 299: the sections, empty when no report was asked for.\<close>

definition report_stage ::
  "collaborators \<Rightarrow> operator_spec \<Rightarrow> model_self \<Rightarrow> sm frame option \<Rightarrow> test_data option
     \<Rightarrow> py_error + report_section list \<times> model_self" where
  "report_stage C S self summary_metrics test_data =
     (if spec_generate_report S then
        (case model_generate_report C of
           Inl e \<Rightarrow> Inl e
         | Inr rep \<Rightarrow>
             let self' = self\<lparr>formatted_global_explanation := report_global_explanation rep,
                              formatted_local_explanation := report_local_explanation rep\<rparr>
             in (case build_report_sections C S self' summary_metrics test_data rep of
                   Inl e \<Rightarrow> Inl e
                 | Inr report_sections \<Rightarrow> Inr (report_sections, self')))
      else Inr ([], self))"

definition generate_report ::
  "collaborators \<Rightarrow> operator_spec \<Rightarrow> model_self \<Rightarrow> log_entry list \<times> (py_error + report_run)" where
  "generate_report C S self =
     (let (lg0, self0) =
            (if spec_previous_output_dir S \<noteq> None then load_model C S self else ([], self))
      in case build_model C of
           Inl e \<Rightarrow> (lg0, Inl e)
         | Inr (result_df, b) \<Rightarrow>
             let self1 = self0\<lparr>forecast_output := built_forecast_output b,
                               models := built_models b,
                               model_parameters := built_model_parameters b,
                               errors_dict := built_errors_dict b\<rparr>;
                 lg1 = lg0 @ [(INFO, Building_models_completed)]
             in (case metrics_stage C S self1 of
                   (lg2, Inl e) \<Rightarrow> (lg1 @ lg2, Inl e)
                 | (lg2, Inr (self2, summary_metrics, test_data)) \<Rightarrow>
                     (case report_stage C S self2 summary_metrics test_data of
                        Inl e \<Rightarrow> (lg1 @ lg2, Inl e)
                      | Inr (report_sections, self3) \<Rightarrow>
                          (case save_report S self3 report_sections result_df
                                  (eval_metrics self3) (test_eval_metrics self3) of
                             (lg3, files) \<Rightarrow>
                               (lg1 @ lg2 @ lg3,
                                Inr \<lparr>run_sections = report_sections,
                                     run_summary_metrics = summary_metrics,
                                     run_artifacts = files,
                                     run_self = self3\<rparr>)))))"

section \<open>Explanations\<close>

text \<open>
  A permutation explainer is determined by the series whose model predicts and by its
  masker.
\<close>

type_synonym explainer = "sid \<times> series_data"

text \<open>
  The collaborators of \<open>explain_model\<close>: the table \<open>SpeedAccuracyMode.ratio\<close>, the encoding
  of the trimmed data (lines 663 to 672), the encoded horizon window of a series (lines
  716 to 724), and the explainer's construction and \<open>shap_values\<close>.
\<close>

record explainers =
  ratio_table :: "string \<rightharpoonup> rat"
  encode_trimmed :: "series_data \<Rightarrow> py_error + series_data"
  horizon_data :: "sid \<Rightarrow> py_error + series_data"
  shap_values :: "explainer \<Rightarrow> series_data \<Rightarrow> py_error + fval list list"

text \<open>\<open>int(x)\<close> truncates towards zero.\<close>

definition py_int :: "rat \<Rightarrow> int" where
  "py_int x = (if 0 \<le> x then \<lfloor>x\<rfloor> else \<lceil>x\<rceil>)"

text \<open>\<open>df.tail(n)\<close> for a positive \<open>n\<close>, as line 660 calls it.\<close>

definition tail :: "int \<Rightarrow> series_data \<Rightarrow> series_data" where
  "tail n d = d\<lparr>sd_rows := drop (length (sd_rows d) - nat n) (sd_rows d)\<rparr>"

fun np_absolute :: "fval \<Rightarrow> fval" where
  "np_absolute NaN = NaN"
| "np_absolute (Num r) = Num \<bar>r\<bar>"

text \<open>
  \<open>np.average\<close> of one column: NaN as soon as a cell is NaN. The value is stored in the
  global explanation and no test of the code looks at it.
\<close>

definition np_average :: "fval list \<Rightarrow> fval" where
  "np_average xs =
     (if xs = [] \<or> list_ex isnan xs then NaN
      else Num (sum_list (numbers xs) / of_nat (length xs)))"

text \<open>\<open>np.average(np.absolute(vals[:, 1:]), axis=0)\<close> on the rows \<open>vals\<close>.\<close>

definition average_absolute :: "fval list list \<Rightarrow> fval list" where
  "average_absolute vals = map (np_average \<circ> map np_absolute) (transpose (map (drop 1) vals))"

text \<open>
  \<open>local_explainer\<close>, lines 708 to 732. \<open>pd.DataFrame(vals, columns=...)\<close> raises
  ValueError when a row does not have one cell per column.
\<close>

definition local_explainer ::
  "explainers \<Rightarrow> explainer \<Rightarrow> sid \<Rightarrow> model_self \<Rightarrow> py_error + model_self" where
  "local_explainer E kernel_explainer series_id self =
     (case horizon_data E series_id of
        Inl e \<Rightarrow> Inl e
      | Inr data \<Rightarrow>
          (case shap_values E kernel_explainer data of
             Inl e \<Rightarrow> Inl e
           | Inr local_kernel_explnr_vals \<Rightarrow>
               if list_ex (\<lambda>row. length row \<noteq> length (sd_columns data))
                    local_kernel_explnr_vals
               then Inl ValueError
               else Inr (self\<lparr>local_explanation := (local_explanation self)
                           (series_id \<mapsto> \<lparr>sd_columns = sd_columns data,
                                          sd_rows = local_kernel_explnr_vals\<rparr>)\<rparr>)))"

text \<open>
  One iteration of the loop of \<open>explain_model\<close>, lines 658 to 699: the log, the object
  as the iteration leaves it, and the exception if one was raised.
\<close>

definition explain_series ::
  "explainers \<Rightarrow> rat \<Rightarrow> model_self \<Rightarrow> sid \<times> series_data
     \<Rightarrow> log_entry list \<times> model_self \<times> py_error option" where
  "explain_series E ratio self item =
     (let (s_id, data_i) = item
      in case models self of
           None \<Rightarrow> ([], self, Some TypeError)
         | Some fitted \<Rightarrow>
             if fitted s_id \<noteq> None then
               let data_trimmed =
                     tail (max (py_int (of_nat (length (sd_rows data_i)) * ratio)) 5) data_i
               in (case encode_trimmed E data_trimmed of
                     Inl e \<Rightarrow> ([], self, Some e)
                   | Inr data_trimmed_encoded \<Rightarrow>
                       let kernel_explnr = (s_id, data_trimmed_encoded)
                       in (case shap_values E kernel_explnr data_trimmed_encoded of
                             Inl e \<Rightarrow> ([], self, Some e)
                           | Inr kernel_explnr_vals \<Rightarrow>
                               (case local_explainer E kernel_explnr s_id self of
                                  Inl e \<Rightarrow> ([], self, Some e)
                                | Inr self' \<Rightarrow>
                                    if length kernel_explnr_vals = 0 then
                                      ([(WARN, No_explanations_generated)], self', None)
                                    else
                                      ([],
                                       self'\<lparr>global_explanation := (global_explanation self')
                                          (s_id \<mapsto> zip (drop 1 (sd_columns data_trimmed))
                                                     (average_absolute kernel_explnr_vals))\<rparr>,
                                       None))))
             else ([(WARN, Skipping_explanations s_id)], self, None))"

fun explain_loop ::
  "explainers \<Rightarrow> rat \<Rightarrow> model_self \<Rightarrow> (sid \<times> series_data) list
     \<Rightarrow> log_entry list \<times> model_self \<times> py_error option" where
  "explain_loop E ratio self [] = ([], self, None)"
| "explain_loop E ratio self (item # rest) =
     (case explain_series E ratio self item of
        (lg, self', Some e) \<Rightarrow> (lg, self', Some e)
      | (lg, self', None) \<Rightarrow>
          (case explain_loop E ratio self' rest of
             (lg', r) \<Rightarrow> (lg @ lg', r)))"

text \<open>
  \<open>explain_model\<close> over the items of \<open>datasets.get_data_by_series(include_horizon=False)\<close>.
\<close>

definition explain_model ::
  "explainers \<Rightarrow> operator_spec \<Rightarrow> (sid \<times> series_data) list \<Rightarrow> model_self
     \<Rightarrow> log_entry list \<times> model_self \<times> py_error option" where
  "explain_model E S data_by_series self =
     (case ratio_table E (spec_explanations_accuracy_mode S) of
        None \<Rightarrow> ([(INFO, Calculating_explanations)], self, Some KeyError)
      | Some ratio \<Rightarrow>
          (case explain_loop E ratio self data_by_series of
             (lg, self', Some e) \<Rightarrow> ((INFO, Calculating_explanations) # lg, self', Some e)
           | (lg, self', None) \<Rightarrow>
               ((INFO, Calculating_explanations) # lg
                  @ [(INFO, Global_explanations_completed),
                     (INFO, Local_explanations_completed)],
                self', None)))"

section \<open>Notions of the statements and sample inputs\<close>

text \<open>
  The summary with a breakdown, as the statements below describe it: the columns in the
  order of \<open>new_column_order\<close>, the rows of the aggregate first and the rows of the
  breakdown under them.
\<close>

definition with_breakdown :: "sm frame \<Rightarrow> sm frame \<Rightarrow> sm frame" where
  "with_breakdown agg ph =
     \<lparr>cols = new_column_order,
      rows = reindex_rows new_column_order agg @ reindex_rows new_column_order ph\<rparr>"

text \<open>
  Sample collaborators for the concrete runs: a metrics helper that fails on empty or
  unequal arrays and otherwise reports a perfect fit, a breakdown of one horizon step, a
  mean that skips NaN and is NaN when nothing is left, a median, and the limit 10 that
  the comment of line 389 names. The sample mean and median are exact; the sample cells
  are chosen so that no rounding of float64 changes an order among them.
\<close>

definition demo_mean :: "fval list \<Rightarrow> fval" where
  "demo_mean xs =
     (if numbers xs = [] then NaN
      else Num (sum_list (numbers xs) / of_nat (length (numbers xs))))"

definition demo_col :: metrics_col where
  "demo_col = \<lparr>smape = Num 0, mape = Num 0, rmse = Num 0, r2 = Num 1, explained_variance = Num 1\<rparr>"

definition demo_median :: "fval list \<Rightarrow> fval" where
  "demo_median xs =
     (let ys = sort (numbers xs); n = length ys
      in if xs = [] \<or> list_ex isnan xs then NaN
         else if odd n then Num (ys ! (n div 2))
         else Num ((ys ! (n div 2 - 1) + ys ! (n div 2)) / 2))"

definition demo_breakdown :: "sm frame" where
  "demo_breakdown =
     \<lparr>cols = [MEAN_SMAPE, MEDIAN_SMAPE, MEAN_MAPE, MEDIAN_MAPE, MEAN_WMAPE, MEDIAN_WMAPE],
      rows = [(''horizon_1'', [Num 1, Num 2, Num 3, Num 4, Num 5, Num 6])]\<rparr>"

definition demo_libs :: libs where
  "demo_libs =
     \<lparr>build_metrics_df =
        (\<lambda>y_true y_pred s_id.
           if y_true = [] \<or> length y_true \<noteq> length y_pred then Inl ValueError
           else Inr demo_col),
      build_metrics_per_horizon = (\<lambda>data output. Inr demo_breakdown),
      np_mean = demo_mean,
      np_median = demo_median,
      SUMMARY_METRICS_HORIZON_LIMIT = 10\<rparr>"


definition demo_libs_no_breakdown :: libs where
  "demo_libs_no_breakdown = demo_libs\<lparr>build_metrics_per_horizon := (\<lambda>data output. Inr empty_frame)\<rparr>"

definition demo_data :: test_data where
  "demo_data = [''A'' \<mapsto> [Num 1, Num 3]]"

definition demo_output :: forecast_output where
  "demo_output = [(''A'', [Num 1, Num 2])]"

text \<open>
  A sample run: the statistics table of three columns, a configuration in the mode
  \<open>auto-select\<close> with a report, metrics and test data, collaborators that all succeed,
  the object as \<open>__init__\<close> leaves it, and the sections this run assembles.
\<close>

definition demo_stats :: backtest_stats where
  "demo_stats =
     [(''backtest'', [Num 0, Num 1]),
      (''modelA'', [Num (1 / 10), Num (3 / 10)]),
      (''modelB'', [Num (1 / 20), Num (1 / 20)])]"

definition demo_spec :: operator_spec where
  "demo_spec =
     \<lparr>spec_model = ''auto-select'',
      spec_horizon = 10,
      spec_previous_output_dir = None,
      spec_test_data = Some ''test.csv'',
      spec_output_directory = ''out'',
      spec_generate_report = True,
      spec_generate_metrics = True,
      spec_generate_explanations = False,
      spec_generate_model_parameters = False,
      spec_generate_model_pickle = False,
      spec_explanations_accuracy_mode = ''FAST_APPROXIMATE''\<rparr>"

definition demo_result_df :: "string frame" where
  "demo_result_df = \<lparr>cols = [''Series'', ''forecast_value''], rows = [(''0'', [Num 0, Num 2])]\<rparr>"

definition demo_train_metrics :: "string frame" where
  "demo_train_metrics = \<lparr>cols = [''A''], rows = [(''sMAPE'', [Num 0])]\<rparr>"

definition demo_built :: built where
  "demo_built =
     \<lparr>built_forecast_output = Some demo_output,
      built_models = Some [''A'' \<mapsto> ''model A''],
      built_model_parameters = [],
      built_errors_dict = []\<rparr>"

definition demo_model_report :: model_report where
  "demo_model_report =
     \<lparr>model_description = ''description'',
      other_sections = [Model_block ''model details''],
      report_global_explanation = None,
      report_local_explanation = None\<rparr>"

definition demo_collaborators :: collaborators where
  "demo_collaborators =
     \<lparr>metrics_libs = demo_libs,
      build_model = Inr (demo_result_df, demo_built),
      evaluate_train_metrics = (\<lambda>output. Inr (Some demo_train_metrics)),
      model_generate_report = Inr demo_model_report,
      new_test_data = Inr demo_data,
      load_pkl = (\<lambda>path. Inl FileNotFoundError),
      csv_files = [''out/backtest_stats.csv'' \<mapsto> demo_stats],
      frame_mean = demo_mean,
      elapsed_time = Num 7\<rparr>"

definition demo_self :: model_self where
  "demo_self =
     \<lparr>test_eval_metrics = None,
      eval_metrics = None,
      forecast_output = None,
      models = None,
      loaded_models = None,
      model_parameters = [],
      errors_dict = [],
      formatted_global_explanation = None,
      formatted_local_explanation = None,
      global_explanation = Map.empty,
      local_explanation = Map.empty,
      original_target_column = ''y'',
      has_artificial_series = False\<rparr>"

definition demo_summary :: "sm frame" where
  "demo_summary =
     \<lparr>cols = new_column_order,
      rows = [(''All Targets'',
               [Num 0, Num 0, Num 0, Num 0, NaN, NaN, Num 0, Num 0, Num 1, Num 1,
                Num 1, Num 1, Num 7]),
              (''horizon_1'',
               [Num 1, Num 2, Num 3, Num 4, Num 5, Num 6, NaN, NaN, NaN, NaN,
                NaN, NaN, NaN])]\<rparr>"

definition demo_sections :: "report_section list" where
  "demo_sections =
     [Summary_block ''description'',
      Heading ''Back Testing Metrics'' 2,
      DataTable (Backtest_table demo_stats),
      Average_scores_text [(''modelA'', Num (1 / 5)), (''modelB'', Num (1 / 20))] ''modelB'',
      Auto_select_plot demo_stats,
      Heading ''Forecasted Data Overlaying Historical'' 2,
      Forecast_plots demo_output (Some demo_data),
      Model_block ''model details'',
      Heading ''Test Data Evaluation Metrics'' 2,
      DataTable (Metrics_table [(''A'', demo_col)]),
      Heading ''Test Data Summary Metrics'' 2,
      DataTable (Summary_table demo_summary),
      Heading ''Training Data Metrics'' 2,
      DataTable (Frame_table demo_train_metrics),
      Heading ''Reference: YAML File'' 2,
      Yaml_appendix]"

text \<open>
  The table of the sample run with the two cells of \<open>modelA\<close> missing, and the same table
  with its header and no row; each in the place of the statistics file.
\<close>

definition demo_stats_nan :: backtest_stats where
  "demo_stats_nan =
     [(''backtest'', [Num 0, Num 1]),
      (''modelA'', [NaN, NaN]),
      (''modelB'', [Num (1 / 20), Num (1 / 20)])]"

definition demo_collaborators_nan :: collaborators where
  "demo_collaborators_nan =
     demo_collaborators\<lparr>csv_files := [''out/backtest_stats.csv'' \<mapsto> demo_stats_nan]\<rparr>"

definition demo_stats_no_rows :: backtest_stats where
  "demo_stats_no_rows = [(''backtest'', []), (''modelA'', []), (''modelB'', [])]"

definition demo_collaborators_no_rows :: collaborators where
  "demo_collaborators_no_rows =
     demo_collaborators\<lparr>csv_files := [''out/backtest_stats.csv'' \<mapsto> demo_stats_no_rows]\<rparr>"

definition demo_sections_no_rows :: "report_section list" where
  "demo_sections_no_rows =
     [Summary_block ''description'',
      Heading ''Back Testing Metrics'' 2,
      DataTable (Backtest_table demo_stats_no_rows),
      Average_scores_text [(''modelA'', NaN), (''modelB'', NaN)] ''modelA'',
      Auto_select_plot demo_stats_no_rows,
      Heading ''Forecasted Data Overlaying Historical'' 2,
      Forecast_plots demo_output (Some demo_data),
      Model_block ''model details'',
      Heading ''Test Data Evaluation Metrics'' 2,
      DataTable (Metrics_table [(''A'', demo_col)]),
      Heading ''Test Data Summary Metrics'' 2,
      DataTable (Summary_table demo_summary),
      Heading ''Training Data Metrics'' 2,
      DataTable (Frame_table demo_train_metrics),
      Heading ''Reference: YAML File'' 2,
      Yaml_appendix]"

definition demo_collaborators_no_file :: collaborators where
  "demo_collaborators_no_file = demo_collaborators\<lparr>csv_files := Map.empty\<rparr>"

definition demo_spec_no_test :: operator_spec where
  "demo_spec_no_test = demo_spec\<lparr>spec_test_data := None\<rparr>"

text \<open>
  Sample explanations: a series of two rows, one without rows, a horizon window of one
  row, explainers whose attribution fails on series \<open>A\<close> and otherwise returns one row of
  values per row of data, and an object with fitted models for \<open>A\<close>, \<open>B\<close> and \<open>C\<close>.
\<close>

definition demo_series :: series_data where
  "demo_series = \<lparr>sd_columns = [''ds'', ''x''], sd_rows = [[Num 1, Num 2], [Num 2, Num (- 4)]]\<rparr>"

definition demo_no_rows :: series_data where
  "demo_no_rows = \<lparr>sd_columns = [''ds'', ''x''], sd_rows = []\<rparr>"

definition demo_horizon :: series_data where
  "demo_horizon = \<lparr>sd_columns = [''ds'', ''x''], sd_rows = [[Num 3, Num 5]]\<rparr>"

definition demo_explainers :: explainers where
  "demo_explainers =
     \<lparr>ratio_table = [''HIGH_ACCURACY'' \<mapsto> 1, ''FAST_APPROXIMATE'' \<mapsto> 1 / 5],
      encode_trimmed = Inr,
      horizon_data = (\<lambda>s_id. Inr demo_horizon),
      shap_values =
        (\<lambda>kernel data. if fst kernel = ''A'' then Inl (LibraryError ''shap'')
                        else Inr (sd_rows data))\<rparr>"

definition demo_fitted_self :: model_self where
  "demo_fitted_self =
     demo_self\<lparr>models := Some [''A'' \<mapsto> ''model A'', ''B'' \<mapsto> ''model B'', ''C'' \<mapsto> ''model C'']\<rparr>"

section \<open>Properties of the test metrics\<close>

lemma cell_reindexed:
  "c \<in> set cs \<Longrightarrow> cell cs (map f cs) c = f c"
  by (simp add: cell_def map_of_zip_map)

lemma reindex_rows_twice:
  assumes "set sel \<subseteq> set cs"
  shows "reindex_rows sel \<lparr>cols = cs, rows = reindex_rows cs f\<rparr> = reindex_rows sel f"
proof -
  have "map (cell cs (map (cell (cols f) vs) cs)) sel = map (cell (cols f) vs) sel" for vs
    using assms by (intro map_cong) (auto simp: cell_reindexed)
  then show ?thesis
    by (simp add: reindex_rows_def case_prod_unfold)
qed

lemma reindex_rows_append:
  "reindex_rows sel \<lparr>cols = cs, rows = ra @ rb\<rparr>
     = reindex_rows sel \<lparr>cols = cs, rows = ra\<rparr> @ reindex_rows sel \<lparr>cols = cs, rows = rb\<rparr>"
  by (simp add: reindex_rows_def)

lemma select_cols_pd_concat:
  assumes "select_cols sel (pd_concat a b) = Inr s"
  shows "s = \<lparr>cols = sel, rows = reindex_rows sel a @ reindex_rows sel b\<rparr>"
proof -
  let ?cs = "cols a @ filter (\<lambda>c. c \<notin> set (cols a)) (cols b)"
  from assms have sub: "set sel \<subseteq> set ?cs"
    by (auto simp: select_cols_def pd_concat_def Let_def split: if_splits)
  from assms sub have "s = \<lparr>cols = sel,
      rows = reindex_rows sel \<lparr>cols = ?cs, rows = reindex_rows ?cs a @ reindex_rows ?cs b\<rparr>\<rparr>"
    by (auto simp: select_cols_def pd_concat_def Let_def split: if_splits)
  then show ?thesis
    using sub by (simp add: reindex_rows_append reindex_rows_twice)
qed

lemma summarise_cases:
  assumes "summarise L horizon elapsed data output total_metrics = Inr (t, s, d)"
  shows "t = total_metrics \<and> d = data \<and>
     (if total_metrics = [] then s = empty_frame
      else if horizon \<le> SUMMARY_METRICS_HORIZON_LIMIT L
      then (\<exists>ph. build_metrics_per_horizon L data output = Inr ph \<and>
              s = (if frame_empty ph
                   then frame_of_dict (summary_dict L total_metrics elapsed) ''All Targets''
                   else with_breakdown
                          (frame_of_dict (summary_dict L total_metrics elapsed) ''All Targets'') ph))
      else s = frame_of_dict (summary_dict L total_metrics elapsed) ''All Targets'')"
  using assms
  by (auto simp: summarise_def Let_def with_breakdown_def
           dest!: select_cols_pd_concat split: if_splits sum.splits)

lemma test_evaluate_metrics_returns:
  assumes "test_evaluate_metrics L horizon elapsed data output = (lg, Inr r)"
  shows "\<exists>y. series_loop L horizon data ([], None) output = (lg, Inr (fst r, y)) \<and>
             summarise L horizon elapsed data output (fst r) = Inr r"
proof -
  obtain lg' res where sl: "series_loop L horizon data ([], None) output = (lg', res)"
    by (cases "series_loop L horizon data ([], None) output")
  show ?thesis
  proof (cases res)
    case (Inl e)
    with sl assms show ?thesis by (simp add: test_evaluate_metrics_def)
  next
    case (Inr v)
    obtain t y where v: "v = (t, y)" by (cases v)
    from sl Inr v assms have lg: "lg' = lg"
      and s: "summarise L horizon elapsed data output t = Inr r"
      by (simp_all add: test_evaluate_metrics_def)
    obtain a b c where r: "r = (a, b, c)" by (cases r)
    from summarise_cases[OF s[unfolded r]] have "a = t" by simp
    with sl Inr v lg s r show ?thesis by auto
  qed
qed

lemma demo_loop:
  "series_loop demo_libs h demo_data ([], None) demo_output
     = ([], Inr ([(''A'', demo_col)], Some (py_slice_from (- h) [Num 1, Num 3])))" if "h = 10 \<or> h = 11"
  using that
  by (auto simp add: series_step_def demo_data_def demo_output_def py_slice_from_def
        drop_na_mask_def add_metrics_def demo_libs_def)

lemma demo_aggregate:
  "summary_dict demo_libs [(''A'', demo_col)] (Num 7) =
     [(MEAN_SMAPE, Num 0), (MEDIAN_SMAPE, Num 0), (MEAN_MAPE, Num 0), (MEDIAN_MAPE, Num 0),
      (MEAN_RMSE, Num 0), (MEDIAN_RMSE, Num 0), (MEAN_R2, Num 1), (MEDIAN_R2, Num 1),
      (MEAN_EXPLAINED_VARIANCE, Num 1), (MEDIAN_EXPLAINED_VARIANCE, Num 1),
      (ELAPSED_TIME, Num 7)]"
  by (simp add: summary_dict_def demo_libs_def demo_col_def demo_mean_def demo_median_def)

lemma demo_run_10:
  "test_evaluate_metrics demo_libs 10 (Num 7) demo_data demo_output
     = ([], Inr ([(''A'', demo_col)],
          \<lparr>cols = new_column_order,
           rows = [(''All Targets'',
                    [Num 0, Num 0, Num 0, Num 0, NaN, NaN, Num 0, Num 0, Num 1, Num 1,
                     Num 1, Num 1, Num 7]),
                   (''horizon_1'',
                    [Num 1, Num 2, Num 3, Num 4, Num 5, Num 6, NaN, NaN, NaN, NaN,
                     NaN, NaN, NaN])]\<rparr>,
          demo_data))"
  apply (simp add: test_evaluate_metrics_def demo_loop summarise_def demo_aggregate)
  apply (simp add: demo_libs_def demo_breakdown_def frame_empty_def frame_of_dict_def
      pd_concat_def select_cols_def new_column_order_def reindex_rows_def cell_def)
  done

lemma demo_run_11:
  "test_evaluate_metrics demo_libs 11 (Num 7) demo_data demo_output
     = ([], Inr ([(''A'', demo_col)],
          frame_of_dict (summary_dict demo_libs [(''A'', demo_col)] (Num 7)) ''All Targets'',
          demo_data))"
  apply (simp add: test_evaluate_metrics_def demo_loop summarise_def)
  apply (simp add: demo_libs_def)
  done

lemma demo_loop_no_breakdown:
  "series_loop demo_libs_no_breakdown 10 demo_data ([], None) demo_output
     = ([], Inr ([(''A'', demo_col)], Some [Num 1, Num 3]))"
  by (simp add: series_step_def demo_data_def demo_output_def py_slice_from_def
        drop_na_mask_def add_metrics_def demo_libs_def demo_libs_no_breakdown_def)

lemma demo_aggregate_no_breakdown:
  "summary_dict demo_libs_no_breakdown t e = summary_dict demo_libs t e"
  by (simp add: summary_dict_def demo_libs_no_breakdown_def)

text \<open>
  Claim C1. A series of both tables whose last pairs hold at least one valid pair should
  lose only the positions with a NaN and get one column. Here series \<open>A\<close> has the pairs
  \<open>(1, 1)\<close> and \<open>(NaN, 2)\<close> at horizon 2: the first pair is valid, yet the branch guarded by
  \<open>drop_na_mask.any()\<close> runs \<open>continue\<close>, and the table comes back without a column
  for \<open>A\<close>, whatever the helpers compute.
\<close>

theorem partly_missing_series_gets_no_column:
  "test_evaluate_metrics L 2 elapsed [''A'' \<mapsto> [Num 1, NaN]] [(''A'', [Num 1, Num 2])]
     = ([(DEBUG, No_values_in_test_data ''A'')],
        Inr ([], empty_frame, [''A'' \<mapsto> [Num 1, NaN]]))"
  by (simp add: test_evaluate_metrics_def series_step_def py_slice_from_def
        drop_na_mask_def summarise_def)

text \<open>
  Claim C2. A series with a forecast and no test data should be logged, skipped and leave
  the run intact. The handler of KeyError logs the warning and falls through to the use
  of \<open>y_true\<close>: when the series is the first one, \<open>y_true\<close> is unbound and the function
  raises; when an earlier series bound it, the step goes on with that series' values and
  hands them to \<open>_build_metrics_df\<close> under the missing series' name.
\<close>

theorem series_missing_from_test_data_not_skipped:
  "test_evaluate_metrics L 1 elapsed Map.empty [(''A'', [Num 1])]
     = ([(WARN, Unable_to_find_series ''A'')], Inl UnboundLocalError)
   \<and> series_step L 1 [''A'' \<mapsto> [Num 1]] (total_metrics, Some [Num 1]) (''B'', [Num 2])
     = ([(WARN, Unable_to_find_series ''B'')],
        add_metrics L total_metrics ''B'' [Num 1] [Num 2])"
  by (simp add: test_evaluate_metrics_def series_step_def py_slice_from_def drop_na_mask_def)









text \<open>
  Claim C4 as stated does not hold. At a horizon equal to the limit, with a breakdown of
  one row, the returned summary has the aggregate row first and the breakdown row under
  it: \<open>pd.concat([summary_metrics, metrics_per_horizon])\<close> appends. And at the same
  horizon with an empty breakdown table the summary carries no breakdown and keeps its
  eleven columns, because of the test \<open>not metrics_per_horizon.empty\<close>.
\<close>

theorem breakdown_prepended_iff_within_limit_counterexample:
  "test_evaluate_metrics demo_libs 10 (Num 7) demo_data demo_output
     = ([], Inr ([(''A'', demo_col)],
          \<lparr>cols = new_column_order,
           rows = [(''All Targets'',
                    [Num 0, Num 0, Num 0, Num 0, NaN, NaN, Num 0, Num 0, Num 1, Num 1,
                     Num 1, Num 1, Num 7]),
                   (''horizon_1'',
                    [Num 1, Num 2, Num 3, Num 4, Num 5, Num 6, NaN, NaN, NaN, NaN,
                     NaN, NaN, NaN])]\<rparr>,
          demo_data))
   \<and> SUMMARY_METRICS_HORIZON_LIMIT demo_libs = 10
   \<and> SUMMARY_METRICS_HORIZON_LIMIT demo_libs_no_breakdown = 10
   \<and> test_evaluate_metrics demo_libs_no_breakdown 10 (Num 7) demo_data demo_output
     = ([], Inr ([(''A'', demo_col)],
          \<lparr>cols = [MEAN_SMAPE, MEDIAN_SMAPE, MEAN_MAPE, MEDIAN_MAPE, MEAN_RMSE, MEDIAN_RMSE,
                   MEAN_R2, MEDIAN_R2, MEAN_EXPLAINED_VARIANCE, MEDIAN_EXPLAINED_VARIANCE,
                   ELAPSED_TIME],
           rows = [(''All Targets'',
                    [Num 0, Num 0, Num 0, Num 0, Num 0, Num 0, Num 1, Num 1, Num 1, Num 1,
                     Num 7])]\<rparr>,
          demo_data))"
proof -
  have "test_evaluate_metrics demo_libs_no_breakdown 10 (Num 7) demo_data demo_output
     = ([], Inr ([(''A'', demo_col)],
          frame_of_dict (summary_dict demo_libs [(''A'', demo_col)] (Num 7)) ''All Targets'',
          demo_data))"
    apply (simp add: test_evaluate_metrics_def demo_loop_no_breakdown summarise_def
        demo_aggregate_no_breakdown)
    apply (simp add: demo_libs_no_breakdown_def demo_libs_def frame_empty_def empty_frame_def)
    done
  then show ?thesis
    by (simp add: demo_run_10 demo_aggregate frame_of_dict_def)
      (simp add: demo_libs_def demo_libs_no_breakdown_def)
qed

text \<open>
  Claim C4, amended. For a non-empty metrics table, the returned summary includes the
  breakdown exactly when the horizon is at most the limit and the breakdown table is not
  empty; when included, its rows are appended under the aggregate row and the columns
  are those of \<open>new_column_order\<close>, in that order. Above the limit the summary is the
  aggregate alone.
\<close>

theorem breakdown_appended_iff_within_limit_and_nonempty:
  assumes "test_evaluate_metrics L h e data out = (lg, Inr (t, s, d))"
    and "t \<noteq> []"
  shows "(h \<le> SUMMARY_METRICS_HORIZON_LIMIT L \<longrightarrow>
            (\<exists>ph. build_metrics_per_horizon L data out = Inr ph \<and>
               s = (if frame_empty ph
                    then frame_of_dict (summary_dict L t e) ''All Targets''
                    else with_breakdown (frame_of_dict (summary_dict L t e) ''All Targets'') ph)))
       \<and> (SUMMARY_METRICS_HORIZON_LIMIT L < h \<longrightarrow>
            s = frame_of_dict (summary_dict L t e) ''All Targets'')"
proof -
  from test_evaluate_metrics_returns[OF assms(1)]
  have "summarise L h e data out t = Inr (t, s, d)" by auto
  from summarise_cases[OF this] assms(2) show ?thesis
    by (auto split: if_splits)
qed

text \<open>The amended statement at the limit, 10, and one step above it.\<close>

theorem breakdown_appended_iff_within_limit_and_nonempty_witness:
  "(\<exists>lg t s. test_evaluate_metrics demo_libs 10 (Num 7) demo_data demo_output
                = (lg, Inr (t, s, demo_data))
        \<and> t \<noteq> []
        \<and> s = with_breakdown (frame_of_dict (summary_dict demo_libs t (Num 7)) ''All Targets'')
                demo_breakdown)
   \<and> (\<exists>lg t s. test_evaluate_metrics demo_libs 11 (Num 7) demo_data demo_output
                = (lg, Inr (t, s, demo_data))
        \<and> t \<noteq> []
        \<and> s = frame_of_dict (summary_dict demo_libs t (Num 7)) ''All Targets'')"
proof -
  have ne: "[(''A'', demo_col)] \<noteq> []" by simp
  have lim: "SUMMARY_METRICS_HORIZON_LIMIT demo_libs = 10"
    and ph: "build_metrics_per_horizon demo_libs demo_data demo_output = Inr demo_breakdown"
    and full: "\<not> frame_empty demo_breakdown"
    by (simp_all add: demo_libs_def demo_breakdown_def frame_empty_def)
  from breakdown_appended_iff_within_limit_and_nonempty[OF demo_run_10 ne] lim ph full
  have a: "\<lparr>cols = new_column_order,
           rows = [(''All Targets'',
                    [Num 0, Num 0, Num 0, Num 0, NaN, NaN, Num 0, Num 0, Num 1, Num 1,
                     Num 1, Num 1, Num 7]),
                   (''horizon_1'',
                    [Num 1, Num 2, Num 3, Num 4, Num 5, Num 6, NaN, NaN, NaN, NaN,
                     NaN, NaN, NaN])]\<rparr>
        = with_breakdown (frame_of_dict (summary_dict demo_libs [(''A'', demo_col)] (Num 7))
            ''All Targets'') demo_breakdown"
    by simp
  from breakdown_appended_iff_within_limit_and_nonempty[OF demo_run_11 ne] lim
  have b: "frame_of_dict (summary_dict demo_libs [(''A'', demo_col)] (Num 7)) ''All Targets''
        = frame_of_dict (summary_dict demo_libs [(''A'', demo_col)] (Num 7)) ''All Targets''"
    by simp
  from a demo_run_10
  have r10: "test_evaluate_metrics demo_libs 10 (Num 7) demo_data demo_output
      = ([], Inr ([(''A'', demo_col)],
           with_breakdown (frame_of_dict (summary_dict demo_libs [(''A'', demo_col)] (Num 7))
             ''All Targets'') demo_breakdown,
           demo_data))"
    by simp
  show ?thesis
  proof (intro conjI)
    show "\<exists>lg t s. test_evaluate_metrics demo_libs 10 (Num 7) demo_data demo_output
                = (lg, Inr (t, s, demo_data))
        \<and> t \<noteq> []
        \<and> s = with_breakdown (frame_of_dict (summary_dict demo_libs t (Num 7)) ''All Targets'')
                demo_breakdown"
      by (intro exI conjI) (rule r10, rule ne, rule refl)
    show "\<exists>lg t s. test_evaluate_metrics demo_libs 11 (Num 7) demo_data demo_output
                = (lg, Inr (t, s, demo_data))
        \<and> t \<noteq> []
        \<and> s = frame_of_dict (summary_dict demo_libs t (Num 7)) ''All Targets''"
      by (intro exI conjI) (rule demo_run_11, rule ne, rule b)
  qed
qed

section \<open>Properties of the report\<close>

lemma float_less_irrefl: "\<not> float_less v v"
  by (cases v) simp_all

lemma float_less_asym: "float_less a b \<Longrightarrow> \<not> float_less b a"
  by (cases a; cases b) simp_all

lemma float_less_chain:
  "\<not> float_less v c \<Longrightarrow> float_less x c \<Longrightarrow> \<not> float_less v x"
  by (cases v; cases c; cases x) simp_all

lemma min_fold_member:
  "foldl (\<lambda>cur x. if float_less (snd x) (snd cur) then x else cur) kv rest \<in> set (kv # rest)"
  by (induction rest arbitrary: kv) auto

lemma min_fold_below:
  "\<not> float_less v (snd kv) \<Longrightarrow>
   \<not> float_less v (snd (foldl (\<lambda>cur x. if float_less (snd x) (snd cur) then x else cur) kv rest))"
proof (induction rest arbitrary: kv)
  case Nil
  then show ?case by simp
next
  case (Cons x rest)
  show ?case
  proof (cases "float_less (snd x) (snd kv)")
    case True
    with Cons.prems have "\<not> float_less v (snd x)" by (rule float_less_chain)
    from Cons.IH[OF this] True show ?thesis by simp
  next
    case False
    with Cons.IH[OF Cons.prems] show ?thesis by simp
  qed
qed

lemma min_fold_least:
  "y \<in> set (kv # rest) \<Longrightarrow>
   \<not> float_less (snd y) (snd (foldl (\<lambda>cur x. if float_less (snd x) (snd cur) then x else cur) kv rest))"
proof (induction rest arbitrary: kv)
  case Nil
  then show ?case by (simp add: float_less_irrefl)
next
  case (Cons x rest)
  let ?kv' = "if float_less (snd x) (snd kv) then x else kv"
  have step: "\<not> float_less (snd y) (snd ?kv') \<or> y \<in> set rest"
    using Cons.prems by (auto simp: float_less_irrefl dest: float_less_asym)
  then show ?case
  proof
    assume "\<not> float_less (snd y) (snd ?kv')"
    from min_fold_below[OF this] show ?thesis by simp
  next
    assume "y \<in> set rest"
    then have "y \<in> set (?kv' # rest)" by simp
    from Cons.IH[OF this] show ?thesis by simp
  qed
qed

lemma py_min_key_least:
  assumes "py_min_key d = Inr best"
  shows "\<exists>m. (best, m) \<in> set d \<and> (\<forall>(c, v) \<in> set d. \<not> float_less v m)"
proof (cases d)
  case Nil
  with assms show ?thesis by (simp add: py_min_key_def)
next
  case (Cons kv rest)
  let ?r = "foldl (\<lambda>cur x. if float_less (snd x) (snd cur) then x else cur) kv rest"
  from assms Cons have b: "best = fst ?r" by (simp add: py_min_key_def)
  have mem: "?r \<in> set d" using min_fold_member[of kv rest] Cons by simp
  have "\<forall>y \<in> set d. \<not> float_less (snd y) (snd ?r)"
    using min_fold_least[of _ kv rest] Cons by blast
  with mem b show ?thesis
    by (intro exI[of _ "snd ?r"]) auto
qed

lemma backtest_sections_cases:
  assumes "backtest_sections C S = Inr secs"
  shows "if spec_model S = ''auto-select''
         then \<exists>stats best.
                read_csv C (spec_output_directory S @ ''/'' @ ''backtest_stats.csv'') = Inr stats \<and>
                ''backtest'' \<in> fst ` set stats \<and>
                py_min_key (filter (\<lambda>kv. fst kv \<noteq> ''backtest'')
                             (map (\<lambda>(c, vs). (c, frame_mean C vs)) stats)) = Inr best \<and>
                secs = [Heading ''Back Testing Metrics'' 2,
                        DataTable (Backtest_table stats),
                        Average_scores_text
                          (filter (\<lambda>kv. fst kv \<noteq> ''backtest'')
                             (map (\<lambda>(c, vs). (c, frame_mean C vs)) stats)) best,
                        Auto_select_plot stats]
         else secs = []"
  using assms
  by (auto simp: backtest_sections_def Let_def image_iff split: if_splits sum.splits) force+

lemma demo_means:
  "demo_mean [Num 0, Num 1] = Num (1 / 2)"
  "demo_mean [Num (1 / 10), Num (3 / 10)] = Num (1 / 5)"
  "demo_mean [Num (1 / 20), Num (1 / 20)] = Num (1 / 20)"
  "demo_mean [NaN, NaN] = NaN"
  "demo_mean [] = NaN"
  by (simp_all add: demo_mean_def)

text \<open>
  Claim C8 as stated does not hold for a column without a score. In the table of the
  claim with the two cells of \<open>modelA\<close> missing, the mean of \<open>modelA\<close> is NaN and that of
  \<open>modelB\<close> is 1/20. \<open>min\<close> starts from \<open>modelA\<close>, the first key, and replaces it only by a
  key whose value is \<open><\<close> the current one; no number is \<open><\<close> NaN, so \<open>modelA\<close> is named
  the best model although \<open>modelB\<close> has the lowest mean.
\<close>

theorem best_model_with_missing_scores_counterexample:
  "csv_files demo_collaborators_nan (spec_output_directory demo_spec @ ''/'' @ ''backtest_stats.csv'')
     = Some [(''backtest'', [Num 0, Num 1]),
             (''modelA'', [NaN, NaN]),
             (''modelB'', [Num (1 / 20), Num (1 / 20)])]
   \<and> frame_mean demo_collaborators_nan [NaN, NaN] = NaN
   \<and> frame_mean demo_collaborators_nan [Num (1 / 20), Num (1 / 20)] = Num (1 / 20)
   \<and> backtest_sections demo_collaborators_nan demo_spec =
       Inr [Heading ''Back Testing Metrics'' 2,
            DataTable (Backtest_table demo_stats_nan),
            Average_scores_text [(''modelA'', NaN), (''modelB'', Num (1 / 20))] ''modelA'',
            Auto_select_plot demo_stats_nan]"
proof -
  have c: "csv_files demo_collaborators_nan ''out/backtest_stats.csv'' = Some demo_stats_nan"
    and m: "frame_mean demo_collaborators_nan = demo_mean"
    and d: "spec_output_directory demo_spec = ''out''" "spec_model demo_spec = ''auto-select''"
    by (simp_all add: demo_collaborators_nan_def demo_collaborators_def demo_spec_def)
  have "backtest_sections demo_collaborators_nan demo_spec =
       Inr [Heading ''Back Testing Metrics'' 2,
            DataTable (Backtest_table demo_stats_nan),
            Average_scores_text [(''modelA'', NaN), (''modelB'', Num (1 / 20))] ''modelA'',
            Auto_select_plot demo_stats_nan]"
    using c by (simp add: backtest_sections_def read_csv_def d m)
      (simp add: demo_stats_nan_def demo_means py_min_key_def)
  with c show ?thesis
    by (simp add: d m demo_means) (simp add: demo_stats_nan_def)
qed

text \<open>
  Claim C8, amended. When the backtest section is built and every column of the
  statistics table other than \<open>backtest\<close> has a mean that is a number, the best model
  named in the section is such a column and its mean, as \<open>DataFrame.mean()\<close> computes it,
  is the lowest: at most the mean of every other such column.
\<close>

theorem best_model_has_lowest_mean:
  assumes "backtest_sections C S = Inr secs" and "spec_model S = ''auto-select''"
    and "\<forall>stats. csv_files C (spec_output_directory S @ ''/'' @ ''backtest_stats.csv'') = Some stats
           \<longrightarrow> (\<forall>(c, ws) \<in> set stats. c \<noteq> ''backtest'' \<longrightarrow> \<not> isnan (frame_mean C ws))"
  shows "\<exists>stats best vs m.
           read_csv C (spec_output_directory S @ ''/'' @ ''backtest_stats.csv'') = Inr stats \<and>
           secs = [Heading ''Back Testing Metrics'' 2,
                   DataTable (Backtest_table stats),
                   Average_scores_text
                     (filter (\<lambda>kv. fst kv \<noteq> ''backtest'')
                        (map (\<lambda>(c, vs). (c, frame_mean C vs)) stats)) best,
                   Auto_select_plot stats] \<and>
           best \<noteq> ''backtest'' \<and> (best, vs) \<in> set stats \<and> frame_mean C vs = Num m \<and>
           (\<forall>(c, ws) \<in> set stats. c \<noteq> ''backtest'' \<longrightarrow>
              (\<exists>w. frame_mean C ws = Num w \<and> m \<le> w))"
proof -
  let ?avg = "\<lambda>stats. filter (\<lambda>kv. fst kv \<noteq> ''backtest'')
                        (map (\<lambda>(c, vs). (c, frame_mean C vs)) stats)"
  from backtest_sections_cases[OF assms(1)] assms(2)
  obtain stats best where
    rd: "read_csv C (spec_output_directory S @ ''/'' @ ''backtest_stats.csv'') = Inr stats"
    and mn: "py_min_key (?avg stats) = Inr best"
    and secs: "secs = [Heading ''Back Testing Metrics'' 2, DataTable (Backtest_table stats),
                       Average_scores_text (?avg stats) best, Auto_select_plot stats]"
    by auto
  from rd have "csv_files C (spec_output_directory S @ ''/'' @ ''backtest_stats.csv'') = Some stats"
    by (simp add: read_csv_def split: option.splits)
  with assms(3) have scored: "\<not> isnan (frame_mean C ws)"
    if "(c, ws) \<in> set stats" "c \<noteq> ''backtest''" for c ws
    using that by blast
  from py_min_key_least[OF mn] obtain mv where
    mv: "(best, mv) \<in> set (?avg stats)"
    and least: "\<forall>(c, v) \<in> set (?avg stats). \<not> float_less v mv"
    by blast
  from mv obtain vs where vs: "(best, vs) \<in> set stats" "mv = frame_mean C vs"
    "best \<noteq> ''backtest''"
    by auto
  from scored[OF vs(1,3)] obtain m where m: "frame_mean C vs = Num m"
    by (cases "frame_mean C vs") simp_all
  have low: "\<exists>w. frame_mean C ws = Num w \<and> m \<le> w"
    if "(c, ws) \<in> set stats" "c \<noteq> ''backtest''" for c ws
  proof -
    from scored[OF that] obtain w where w: "frame_mean C ws = Num w"
      by (cases "frame_mean C ws") simp_all
    from that have "(c, frame_mean C ws) \<in> set (?avg stats)" by force
    with least vs(2) have "\<not> float_less (frame_mean C ws) (frame_mean C vs)" by auto
    with w m show ?thesis by simp
  qed
  from rd secs vs m low show ?thesis
    by (intro exI[of _ stats] exI[of _ best] exI[of _ vs] exI[of _ m]) auto
qed

lemma demo_backtest_sections:
  "backtest_sections demo_collaborators demo_spec =
     Inr [Heading ''Back Testing Metrics'' 2,
          DataTable (Backtest_table demo_stats),
          Average_scores_text [(''modelA'', Num (1 / 5)), (''modelB'', Num (1 / 20))] ''modelB'',
          Auto_select_plot demo_stats]"
  by (simp add: backtest_sections_def demo_collaborators_def demo_spec_def read_csv_def
        demo_stats_def demo_means py_min_key_def)

text \<open>
  The table of the claim: \<open>modelA\<close> with 0.1 and 0.3, \<open>modelB\<close> with 0.05 twice, and the
  column \<open>backtest\<close>. Every mean is a number, the averages of the models are 1/5 and 1/20,
  and \<open>modelB\<close> is chosen.
\<close>

theorem best_model_has_lowest_mean_witness:
  "backtest_sections demo_collaborators demo_spec =
     Inr [Heading ''Back Testing Metrics'' 2,
          DataTable (Backtest_table demo_stats),
          Average_scores_text [(''modelA'', Num (1 / 5)), (''modelB'', Num (1 / 20))] ''modelB'',
          Auto_select_plot demo_stats]
   \<and> spec_model demo_spec = ''auto-select''
   \<and> \<not> isnan (frame_mean demo_collaborators [Num (1 / 10), Num (3 / 10)])
   \<and> \<not> isnan (frame_mean demo_collaborators [Num (1 / 20), Num (1 / 20)])
   \<and> (\<exists>vs m w. (''modelB'', vs) \<in> set demo_stats \<and>
         frame_mean demo_collaborators vs = Num m \<and>
         frame_mean demo_collaborators [Num (1 / 10), Num (3 / 10)] = Num w \<and> m \<le> w)"
proof -
  have auto_select: "spec_model demo_spec = ''auto-select''"
    by (simp add: demo_spec_def)
  have mean: "frame_mean demo_collaborators = demo_mean"
    by (simp add: demo_collaborators_def)
  have scored: "\<forall>stats. csv_files demo_collaborators
             (spec_output_directory demo_spec @ ''/'' @ ''backtest_stats.csv'') = Some stats
           \<longrightarrow> (\<forall>(c, ws) \<in> set stats. c \<noteq> ''backtest'' \<longrightarrow>
                  \<not> isnan (frame_mean demo_collaborators ws))"
    by (auto simp: demo_collaborators_def demo_spec_def demo_stats_def demo_means)
  from best_model_has_lowest_mean[OF demo_backtest_sections auto_select scored]
  obtain vs m where "(''modelB'', vs) \<in> set demo_stats"
    and "frame_mean demo_collaborators vs = Num m"
    and "\<forall>(c, ws) \<in> set demo_stats. c \<noteq> ''backtest'' \<longrightarrow>
           (\<exists>w. frame_mean demo_collaborators ws = Num w \<and> m \<le> w)"
    by (auto simp: demo_collaborators_def demo_spec_def read_csv_def)
  moreover have "(''modelA'', [Num (1 / 10), Num (3 / 10)]) \<in> set demo_stats"
    by (simp add: demo_stats_def)
  ultimately have "\<exists>vs m w. (''modelB'', vs) \<in> set demo_stats \<and>
         frame_mean demo_collaborators vs = Num m \<and>
         frame_mean demo_collaborators [Num (1 / 10), Num (3 / 10)] = Num w \<and> m \<le> w"
    by fastforce
  with demo_backtest_sections auto_select show ?thesis
    by (simp add: mean demo_means)
qed

lemma build_report_sections_cases:
  assumes "build_report_sections C S self summary_metrics test_data rep = Inr secs"
  shows "\<exists>backtest plots.
           backtest_sections C S = Inr backtest \<and>
           forecast_plots self test_data = Inr plots \<and>
           secs = [Summary_block (model_description rep)] @ backtest @ plots
                  @ other_sections rep
                  @ test_metrics_sections self summary_metrics
                  @ train_metrics_sections self
                  @ [Heading ''Reference: YAML File'' 2, Yaml_appendix]"
  using assms by (auto simp: build_report_sections_def split: sum.splits)

lemma report_stage_cases:
  assumes "report_stage C S self summary_metrics test_data = Inr (secs, self')"
  shows "if spec_generate_report S
         then \<exists>rep. model_generate_report C = Inr rep \<and>
                self' = self\<lparr>formatted_global_explanation := report_global_explanation rep,
                             formatted_local_explanation := report_local_explanation rep\<rparr> \<and>
                build_report_sections C S self' summary_metrics test_data rep = Inr secs
         else secs = [] \<and> self' = self"
  using assms by (auto simp: report_stage_def Let_def split: sum.splits if_splits)

lemma generate_report_cases:
  assumes "generate_report C S self = (lg, Inr run)"
  shows "\<exists>lg2 self1 self2 test_data.
           metrics_stage C S self1 = (lg2, Inr (self2, run_summary_metrics run, test_data)) \<and>
           report_stage C S self2 (run_summary_metrics run) test_data
             = Inr (run_sections run, run_self run) \<and>
           test_eval_metrics self1 = test_eval_metrics self"
proof -
  obtain lg0 self0 where l0:
    "(if spec_previous_output_dir S \<noteq> None then load_model C S self else ([], self)) = (lg0, self0)"
    by (cases "if spec_previous_output_dir S \<noteq> None then load_model C S self else ([], self)")
  have keep: "test_eval_metrics self0 = test_eval_metrics self"
    using l0 by (auto simp: load_model_def split: if_splits option.splits sum.splits)
  from assms l0 obtain result_df b where bm: "build_model C = Inr (result_df, b)"
    by (cases "build_model C") (auto simp: generate_report_def split: prod.splits)
  let ?self1 = "self0\<lparr>forecast_output := built_forecast_output b,
                       models := built_models b,
                       model_parameters := built_model_parameters b,
                       errors_dict := built_errors_dict b\<rparr>"
  obtain lg2 r2 where ms: "metrics_stage C S ?self1 = (lg2, r2)"
    by (cases "metrics_stage C S ?self1")
  from assms l0 bm ms obtain self2 sm td where r2: "r2 = Inr (self2, sm, td)"
    by (cases r2) (auto simp: generate_report_def Let_def split: prod.splits)
  from assms l0 bm ms r2 obtain secs self3 where
    rs: "report_stage C S self2 sm td = Inr (secs, self3)"
    by (cases "report_stage C S self2 sm td")
       (auto simp: generate_report_def Let_def split: prod.splits)
  from assms l0 bm ms r2 rs have "run_sections run = secs" "run_self run = self3"
    "run_summary_metrics run = sm"
    by (auto simp: generate_report_def Let_def split: prod.splits)
  with ms r2 rs keep show ?thesis
    by (intro exI[of _ lg2] exI[of _ ?self1] exI[of _ self2] exI[of _ td]) simp
qed

lemma forecast_plots_cases:
  assumes "forecast_plots self test_data = Inr plots"
  shows "\<exists>output. forecast_output self = Some output \<and>
           plots = (if output \<noteq> []
                    then [Heading ''Forecasted Data Overlaying Historical'' 2,
                          Forecast_plots output test_data]
                    else [])"
  using assms by (auto simp: forecast_plots_def split: option.splits if_splits)

lemma metrics_stage_cases:
  assumes "metrics_stage C S self = (lg, Inr (self', summary_metrics, test_data))"
  shows "forecast_output self' = forecast_output self \<and>
         (spec_test_data S = None \<longrightarrow>
            summary_metrics = None \<and> test_eval_metrics self' = test_eval_metrics self)"
  using assms
  by (auto simp: metrics_stage_def Let_def split: if_splits sum.splits prod.splits)

lemma metrics_stage_returns:
  assumes "evaluate_train_metrics C (forecast_output self) = Inr m"
  shows "\<exists>lg r. metrics_stage C S self = (lg, Inr r)"
  using assms
  by (auto simp: metrics_stage_def generate_train_metrics_def Let_def
           split: if_splits sum.splits prod.splits)

lemma report_stage_no_file:
  assumes "spec_generate_report S" "spec_model S = ''auto-select''"
    and "csv_files C (spec_output_directory S @ ''/'' @ ''backtest_stats.csv'') = None"
  shows "report_stage C S self summary_metrics test_data =
           (case model_generate_report C of Inl e \<Rightarrow> Inl e | Inr rep \<Rightarrow> Inl FileNotFoundError)"
  using assms
  by (simp add: report_stage_def build_report_sections_def backtest_sections_def read_csv_def
        split: sum.splits)

lemma generate_report_no_file:
  assumes "generate_report C S self = (lg, r)"
    and "spec_generate_report S" "spec_model S = ''auto-select''"
    and "csv_files C (spec_output_directory S @ ''/'' @ ''backtest_stats.csv'') = None"
  shows "(\<exists>e. r = Inl e) \<and>
         (\<forall>df b m rep. build_model C = Inr (df, b) \<and>
             evaluate_train_metrics C (built_forecast_output b) = Inr m \<and>
             model_generate_report C = Inr rep \<longrightarrow> r = Inl FileNotFoundError)"
proof (intro conjI allI impI)
  show "\<exists>e. r = Inl e"
  proof (cases r)
    case (Inr run)
    from generate_report_cases[OF assms(1)[unfolded Inr]]
    obtain self2 test_data where
      "report_stage C S self2 (run_summary_metrics run) test_data
         = Inr (run_sections run, run_self run)"
      by blast
    with report_stage_no_file[OF assms(2-4)] show ?thesis
      by (simp split: sum.splits)
  qed simp
next
  fix df b m rep
  assume h: "build_model C = Inr (df, b) \<and>
             evaluate_train_metrics C (built_forecast_output b) = Inr m \<and>
             model_generate_report C = Inr rep"
  obtain lg0 self0 where l0:
    "(if spec_previous_output_dir S \<noteq> None then load_model C S self else ([], self)) = (lg0, self0)"
    by (cases "if spec_previous_output_dir S \<noteq> None then load_model C S self else ([], self)")
  let ?self1 = "self0\<lparr>forecast_output := built_forecast_output b,
                       models := built_models b,
                       model_parameters := built_model_parameters b,
                       errors_dict := built_errors_dict b\<rparr>"
  from h have "evaluate_train_metrics C (forecast_output ?self1) = Inr m" by simp
  from metrics_stage_returns[OF this] obtain lg2 r2 where
    ms: "metrics_stage C S ?self1 = (lg2, Inr r2)" by blast
  obtain self2 sm td where r2: "r2 = (self2, sm, td)" by (cases r2)
  from report_stage_no_file[OF assms(2-4), of self2 sm td] h
  have "report_stage C S self2 sm td = Inl FileNotFoundError" by simp
  with assms(1) l0 h ms r2 show "r = Inl FileNotFoundError"
    by (auto simp: generate_report_def Let_def split: prod.splits)
qed

lemma demo_run_test_evaluate_metrics:
  "forecast_output self = Some demo_output \<Longrightarrow>
   run_test_evaluate_metrics demo_collaborators demo_spec self
     = ([], Inr ([(''A'', demo_col)], demo_summary, demo_data))"
  by (simp add: run_test_evaluate_metrics_def demo_collaborators_def demo_spec_def
        demo_run_10 demo_summary_def)

lemma demo_metrics_stage:
  "forecast_output self = Some demo_output \<Longrightarrow>
   metrics_stage demo_collaborators demo_spec self
     = ([], Inr (self\<lparr>eval_metrics := Some demo_train_metrics,
                       test_eval_metrics := Some [(''A'', demo_col)]\<rparr>,
                 Some demo_summary, Some demo_data))"
proof -
  assume fo: "forecast_output self = Some demo_output"
  have flags: "spec_generate_report demo_spec" "spec_test_data demo_spec \<noteq> None"
    by (simp_all add: demo_spec_def)
  have train: "generate_train_metrics demo_collaborators s = Inr (Some demo_train_metrics)" for s
    by (simp add: generate_train_metrics_def demo_collaborators_def)
  show ?thesis
    by (simp add: metrics_stage_def flags train demo_run_test_evaluate_metrics fo)
qed

lemma demo_summary_nonempty: "\<not> frame_empty demo_summary"
  by (simp add: frame_empty_def demo_summary_def new_column_order_def)

lemma demo_train_nonempty: "\<not> frame_empty demo_train_metrics"
  by (simp add: frame_empty_def demo_train_metrics_def)

lemma demo_report_stage:
  assumes "forecast_output self = Some demo_output"
    "test_eval_metrics self = Some [(''A'', demo_col)]"
    "eval_metrics self = Some demo_train_metrics"
  shows "report_stage demo_collaborators demo_spec self (Some demo_summary) (Some demo_data)
     = Inr (demo_sections,
            self\<lparr>formatted_global_explanation := None, formatted_local_explanation := None\<rparr>)"
proof -
  have rep: "model_generate_report demo_collaborators = Inr demo_model_report"
    and gen: "spec_generate_report demo_spec"
    by (simp_all add: demo_collaborators_def demo_spec_def)
  show ?thesis
    using assms
    by (simp add: report_stage_def rep gen build_report_sections_def demo_backtest_sections
          forecast_plots_def test_metrics_sections_def train_metrics_sections_def
          demo_summary_nonempty demo_train_nonempty demo_sections_def)
       (simp add: demo_model_report_def demo_output_def)
qed

lemma demo_generate_report:
  "\<exists>lg run. generate_report demo_collaborators demo_spec demo_self = (lg, Inr run)
     \<and> run_sections run = demo_sections"
proof -
  have prev: "spec_previous_output_dir demo_spec = None"
    and bm: "build_model demo_collaborators = Inr (demo_result_df, demo_built)"
    by (simp_all add: demo_spec_def demo_collaborators_def)
  let ?self1 = "demo_self\<lparr>forecast_output := built_forecast_output demo_built,
                       models := built_models demo_built,
                       model_parameters := built_model_parameters demo_built,
                       errors_dict := built_errors_dict demo_built\<rparr>"
  have fo: "forecast_output ?self1 = Some demo_output"
    by (simp add: demo_built_def)
  let ?self2 = "?self1\<lparr>eval_metrics := Some demo_train_metrics,
                       test_eval_metrics := Some [(''A'', demo_col)]\<rparr>"
  have rs: "report_stage demo_collaborators demo_spec ?self2 (Some demo_summary) (Some demo_data)
     = Inr (demo_sections,
            ?self2\<lparr>formatted_global_explanation := None, formatted_local_explanation := None\<rparr>)"
    by (rule demo_report_stage) (simp_all add: demo_built_def)
  show ?thesis
    by (simp add: generate_report_def prev bm demo_metrics_stage[OF fo] rs
          split: prod.splits)
qed

lemma backtest_heading_elsewhere:
  "Heading ''Back Testing Metrics'' 2 \<notin> set (test_metrics_sections self sm)"
  "Heading ''Back Testing Metrics'' 2 \<notin> set (train_metrics_sections self)"
  "forecast_plots self td = Inr plots \<Longrightarrow> Heading ''Back Testing Metrics'' 2 \<notin> set plots"
  by (auto simp: test_metrics_sections_def train_metrics_sections_def forecast_plots_def
           split: option.splits if_splits)

text \<open>
  Claim C5 as stated does not hold. With the mode \<open>auto-select\<close> and no statistics file
  in the output directory the section is not left out of a finished report:
  \<open>pd.read_csv\<close> is called without a test for the file, its FileNotFoundError leaves
  \<open>generate_report\<close>, and no report is assembled.
\<close>

theorem backtest_section_with_missing_file_counterexample:
  "spec_model demo_spec = ''auto-select''
   \<and> csv_files demo_collaborators_no_file
        (spec_output_directory demo_spec @ ''/'' @ ''backtest_stats.csv'') = None
   \<and> snd (generate_report demo_collaborators_no_file demo_spec demo_self)
        = Inl FileNotFoundError"
proof -
  have a: "spec_model demo_spec = ''auto-select''" and g: "spec_generate_report demo_spec"
    by (simp_all add: demo_spec_def)
  have f: "csv_files demo_collaborators_no_file
        (spec_output_directory demo_spec @ ''/'' @ ''backtest_stats.csv'') = None"
    by (simp add: demo_collaborators_no_file_def)
  have ok: "build_model demo_collaborators_no_file = Inr (demo_result_df, demo_built) \<and>
        evaluate_train_metrics demo_collaborators_no_file (built_forecast_output demo_built)
          = Inr (Some demo_train_metrics) \<and>
        model_generate_report demo_collaborators_no_file = Inr demo_model_report"
    by (simp add: demo_collaborators_no_file_def demo_collaborators_def)
  obtain lg r where run: "generate_report demo_collaborators_no_file demo_spec demo_self = (lg, r)"
    by (cases "generate_report demo_collaborators_no_file demo_spec demo_self")
  from generate_report_no_file[OF run g a f] ok have "r = Inl FileNotFoundError"
    by blast
  with run a f show ?thesis by simp
qed

text \<open>
  Claim C5, amended. When a report is asked for and \<open>generate_report\<close> completes, its
  sections contain the backtest section exactly when the mode is \<open>auto-select\<close>, and the
  statistics file then exists. When the mode is \<open>auto-select\<close> and the file does not
  exist, \<open>generate_report\<close> does not complete: it raises, and with the earlier stages
  passing the exception is FileNotFoundError. The model's own sections are taken not to
  reuse the heading of the backtest section.
\<close>

theorem backtest_section_iff_auto_select:
  assumes "generate_report C S self = (lg, r)"
    and "spec_generate_report S"
    and "\<forall>rep. model_generate_report C = Inr rep \<longrightarrow>
           Heading ''Back Testing Metrics'' 2 \<notin> set (other_sections rep)"
  shows "(\<forall>run. r = Inr run \<longrightarrow>
            (Heading ''Back Testing Metrics'' 2 \<in> set (run_sections run)
               \<longleftrightarrow> spec_model S = ''auto-select'') \<and>
            (spec_model S = ''auto-select'' \<longrightarrow>
               csv_files C (spec_output_directory S @ ''/'' @ ''backtest_stats.csv'') \<noteq> None))
       \<and> (spec_model S = ''auto-select'' \<and>
            csv_files C (spec_output_directory S @ ''/'' @ ''backtest_stats.csv'') = None \<longrightarrow>
            (\<exists>e. r = Inl e) \<and>
            (\<forall>df b m rep. build_model C = Inr (df, b) \<and>
                evaluate_train_metrics C (built_forecast_output b) = Inr m \<and>
                model_generate_report C = Inr rep \<longrightarrow> r = Inl FileNotFoundError))"
proof (intro conjI allI impI)
  fix run
  assume r: "r = Inr run"
  from generate_report_cases[OF assms(1)[unfolded r]]
  obtain self2 test_data where
    rs: "report_stage C S self2 (run_summary_metrics run) test_data
           = Inr (run_sections run, run_self run)"
    by blast
  from report_stage_cases[OF rs] assms(2)
  obtain rep where rep: "model_generate_report C = Inr rep"
    and bs: "build_report_sections C S (run_self run) (run_summary_metrics run) test_data rep
               = Inr (run_sections run)"
    by auto
  from build_report_sections_cases[OF bs]
  obtain backtest plots where bt: "backtest_sections C S = Inr backtest"
    and fp: "forecast_plots (run_self run) test_data = Inr plots"
    and secs: "run_sections run = [Summary_block (model_description rep)] @ backtest @ plots
                  @ other_sections rep
                  @ test_metrics_sections (run_self run) (run_summary_metrics run)
                  @ train_metrics_sections (run_self run)
                  @ [Heading ''Reference: YAML File'' 2, Yaml_appendix]"
    by blast
  have other: "Heading ''Back Testing Metrics'' 2 \<notin> set (other_sections rep)"
    using assms(3) rep by blast
  have "Heading ''Back Testing Metrics'' 2 \<in> set (run_sections run)
          \<longleftrightarrow> Heading ''Back Testing Metrics'' 2 \<in> set backtest"
    using secs other backtest_heading_elsewhere(1,2) backtest_heading_elsewhere(3)[OF fp]
    by auto
  also have "\<dots> \<longleftrightarrow> spec_model S = ''auto-select''"
    using backtest_sections_cases[OF bt] by (auto split: if_splits)
  finally show "Heading ''Back Testing Metrics'' 2 \<in> set (run_sections run)
          \<longleftrightarrow> spec_model S = ''auto-select''" .
  show "csv_files C (spec_output_directory S @ ''/'' @ ''backtest_stats.csv'') \<noteq> None"
    if "spec_model S = ''auto-select''"
    using backtest_sections_cases[OF bt] that
    by (auto simp: read_csv_def split: option.splits)
next
  assume h: "spec_model S = ''auto-select'' \<and>
            csv_files C (spec_output_directory S @ ''/'' @ ''backtest_stats.csv'') = None"
  then have a: "spec_model S = ''auto-select''"
    and f: "csv_files C (spec_output_directory S @ ''/'' @ ''backtest_stats.csv'') = None"
    by simp_all
  from generate_report_no_file[OF assms(1,2) a f]
  show "\<exists>e. r = Inl e" by blast
next
  fix df b m rep
  assume h: "spec_model S = ''auto-select'' \<and>
            csv_files C (spec_output_directory S @ ''/'' @ ''backtest_stats.csv'') = None"
    and ok: "build_model C = Inr (df, b) \<and>
                evaluate_train_metrics C (built_forecast_output b) = Inr m \<and>
                model_generate_report C = Inr rep"
  from h have a: "spec_model S = ''auto-select''"
    and f: "csv_files C (spec_output_directory S @ ''/'' @ ''backtest_stats.csv'') = None"
    by simp_all
  from generate_report_no_file[OF assms(1,2) a f] ok
  show "r = Inl FileNotFoundError" by blast
qed

text \<open>
  The amended statement on the sample run, with the statistics file and without it.
\<close>

theorem backtest_section_iff_auto_select_witness:
  "(\<exists>lg run. generate_report demo_collaborators demo_spec demo_self = (lg, Inr run)
       \<and> spec_model demo_spec = ''auto-select''
       \<and> csv_files demo_collaborators ''out/backtest_stats.csv'' = Some demo_stats
       \<and> Heading ''Back Testing Metrics'' 2 \<in> set (run_sections run))
   \<and> (\<exists>lg. generate_report demo_collaborators_no_file demo_spec demo_self
               = (lg, Inl FileNotFoundError))"
proof -
  have g: "spec_generate_report demo_spec" and a: "spec_model demo_spec = ''auto-select''"
    and dir: "spec_output_directory demo_spec = ''out''"
    by (simp_all add: demo_spec_def)
  have other: "\<forall>rep. model_generate_report demo_collaborators = Inr rep \<longrightarrow>
           Heading ''Back Testing Metrics'' 2 \<notin> set (other_sections rep)"
    "\<forall>rep. model_generate_report demo_collaborators_no_file = Inr rep \<longrightarrow>
           Heading ''Back Testing Metrics'' 2 \<notin> set (other_sections rep)"
    by (auto simp: demo_collaborators_def demo_collaborators_no_file_def demo_model_report_def)
  have present: "csv_files demo_collaborators ''out/backtest_stats.csv'' = Some demo_stats"
    and nofile: "csv_files demo_collaborators_no_file
        (spec_output_directory demo_spec @ ''/'' @ ''backtest_stats.csv'') = None"
    by (simp_all add: demo_collaborators_def demo_collaborators_no_file_def)
  from demo_generate_report obtain lg run where
    run: "generate_report demo_collaborators demo_spec demo_self = (lg, Inr run)"
    by blast
  from backtest_section_iff_auto_select[OF run g other(1)] a
  have "Heading ''Back Testing Metrics'' 2 \<in> set (run_sections run)"
    by blast
  with run a present have first: "\<exists>lg run. generate_report demo_collaborators demo_spec demo_self = (lg, Inr run)
       \<and> spec_model demo_spec = ''auto-select''
       \<and> csv_files demo_collaborators ''out/backtest_stats.csv'' = Some demo_stats
       \<and> Heading ''Back Testing Metrics'' 2 \<in> set (run_sections run)"
    by blast
  have ok: "build_model demo_collaborators_no_file = Inr (demo_result_df, demo_built) \<and>
        evaluate_train_metrics demo_collaborators_no_file (built_forecast_output demo_built)
          = Inr (Some demo_train_metrics) \<and>
        model_generate_report demo_collaborators_no_file = Inr demo_model_report"
    by (simp add: demo_collaborators_no_file_def demo_collaborators_def)
  obtain lg' r where run': "generate_report demo_collaborators_no_file demo_spec demo_self = (lg', r)"
    by (cases "generate_report demo_collaborators_no_file demo_spec demo_self")
  from backtest_section_iff_auto_select[OF run' g other(2)] a nofile ok
  have "r = Inl FileNotFoundError" by blast
  with run' first show ?thesis by blast
qed

lemma test_metrics_sections_cases:
  "set (test_metrics_sections self sm) =
     (case test_eval_metrics self of
        None \<Rightarrow> {}
      | Some t \<Rightarrow> if t \<noteq> []
                  then {Heading ''Test Data Evaluation Metrics'' 2, DataTable (Metrics_table t)}
                  else {})
     \<union>
     (case sm of
        None \<Rightarrow> {}
      | Some m \<Rightarrow> if \<not> frame_empty m
                  then {Heading ''Test Data Summary Metrics'' 2, DataTable (Summary_table m)}
                  else {})"
  by (auto simp: test_metrics_sections_def split: option.splits)

lemma train_metrics_sections_cases:
  "set (train_metrics_sections self) =
     (case eval_metrics self of
        None \<Rightarrow> {}
      | Some m \<Rightarrow> if \<not> frame_empty m
                  then {Heading ''Training Data Metrics'' 2, DataTable (Frame_table m)}
                  else {})"
  by (auto simp: train_metrics_sections_def split: option.splits)

lemma backtest_sections_headings:
  assumes "backtest_sections C S = Inr backtest" "Heading title 2 \<in> set backtest"
  shows "title = ''Back Testing Metrics''"
  using backtest_sections_cases[OF assms(1)] assms(2) by (auto split: if_splits)

lemma forecast_plots_headings:
  assumes "forecast_plots self td = Inr plots" "Heading title 2 \<in> set plots"
  shows "title = ''Forecasted Data Overlaying Historical'' \<and>
         (\<exists>output. forecast_output self = Some output \<and> output \<noteq> [])"
  using forecast_plots_cases[OF assms(1)] assms(2) by (auto split: if_splits)

lemma run_sections_cases:
  assumes "generate_report C S self = (lg, Inr run)"
  shows "run_sections run = [] \<or>
         (\<exists>rep backtest plots test_data.
            model_generate_report C = Inr rep \<and>
            backtest_sections C S = Inr backtest \<and>
            forecast_plots (run_self run) test_data = Inr plots \<and>
            run_sections run = [Summary_block (model_description rep)] @ backtest @ plots
                  @ other_sections rep
                  @ test_metrics_sections (run_self run) (run_summary_metrics run)
                  @ train_metrics_sections (run_self run)
                  @ [Heading ''Reference: YAML File'' 2, Yaml_appendix])"
proof -
  from generate_report_cases[OF assms]
  obtain self2 test_data where
    rs: "report_stage C S self2 (run_summary_metrics run) test_data
           = Inr (run_sections run, run_self run)"
    by blast
  show ?thesis
  proof (cases "spec_generate_report S")
    case False
    with report_stage_cases[OF rs] show ?thesis by simp
  next
    case True
    with report_stage_cases[OF rs]
    obtain rep where rep: "model_generate_report C = Inr rep"
      and bs: "build_report_sections C S (run_self run) (run_summary_metrics run) test_data rep
                 = Inr (run_sections run)"
      by auto
    from build_report_sections_cases[OF bs] rep show ?thesis by blast
  qed
qed

lemma run_without_test_data:
  assumes "generate_report C S self = (lg, Inr run)" "spec_test_data S = None"
  shows "run_summary_metrics run = None \<and>
         test_eval_metrics (run_self run) = test_eval_metrics self"
proof -
  from generate_report_cases[OF assms(1)]
  obtain lg2 self1 self2 test_data where
    ms: "metrics_stage C S self1 = (lg2, Inr (self2, run_summary_metrics run, test_data))"
    and rs: "report_stage C S self2 (run_summary_metrics run) test_data
           = Inr (run_sections run, run_self run)"
    and keep: "test_eval_metrics self1 = test_eval_metrics self"
    by blast
  from report_stage_cases[OF rs]
  have "test_eval_metrics (run_self run) = test_eval_metrics self2"
    by (auto split: if_splits)
  with metrics_stage_cases[OF ms] assms(2) keep show ?thesis by simp
qed

lemma demo_no_rows_backtest_sections:
  "backtest_sections demo_collaborators_no_rows demo_spec =
     Inr [Heading ''Back Testing Metrics'' 2,
          DataTable (Backtest_table demo_stats_no_rows),
          Average_scores_text [(''modelA'', NaN), (''modelB'', NaN)] ''modelA'',
          Auto_select_plot demo_stats_no_rows]"
  by (simp add: backtest_sections_def demo_collaborators_no_rows_def demo_collaborators_def
        demo_spec_def read_csv_def demo_stats_no_rows_def demo_means py_min_key_def)

lemma demo_no_rows_metrics_stage:
  "metrics_stage demo_collaborators_no_rows S self = metrics_stage demo_collaborators S self"
proof -
  have f: "metrics_libs demo_collaborators_no_rows = metrics_libs demo_collaborators"
    "elapsed_time demo_collaborators_no_rows = elapsed_time demo_collaborators"
    "new_test_data demo_collaborators_no_rows = new_test_data demo_collaborators"
    "evaluate_train_metrics demo_collaborators_no_rows = evaluate_train_metrics demo_collaborators"
    by (simp_all add: demo_collaborators_no_rows_def)
  show ?thesis
    unfolding metrics_stage_def generate_train_metrics_def run_test_evaluate_metrics_def f
    by (rule refl)
qed

lemma demo_no_rows_report_stage:
  assumes "forecast_output self = Some demo_output"
    "test_eval_metrics self = Some [(''A'', demo_col)]"
    "eval_metrics self = Some demo_train_metrics"
  shows "report_stage demo_collaborators_no_rows demo_spec self (Some demo_summary)
           (Some demo_data)
     = Inr (demo_sections_no_rows,
            self\<lparr>formatted_global_explanation := None, formatted_local_explanation := None\<rparr>)"
proof -
  have rep: "model_generate_report demo_collaborators_no_rows = Inr demo_model_report"
    and gen: "spec_generate_report demo_spec"
    by (simp_all add: demo_collaborators_no_rows_def demo_collaborators_def demo_spec_def)
  show ?thesis
    using assms
    by (simp add: report_stage_def rep gen build_report_sections_def
          demo_no_rows_backtest_sections
          forecast_plots_def test_metrics_sections_def train_metrics_sections_def
          demo_summary_nonempty demo_train_nonempty demo_sections_no_rows_def)
       (simp add: demo_model_report_def demo_output_def)
qed

lemma demo_no_rows_generate_report:
  "\<exists>lg run. generate_report demo_collaborators_no_rows demo_spec demo_self = (lg, Inr run)
     \<and> run_sections run = demo_sections_no_rows"
proof -
  have prev: "spec_previous_output_dir demo_spec = None"
    and bm: "build_model demo_collaborators_no_rows = Inr (demo_result_df, demo_built)"
    by (simp_all add: demo_spec_def demo_collaborators_no_rows_def demo_collaborators_def)
  let ?self1 = "demo_self\<lparr>forecast_output := built_forecast_output demo_built,
                       models := built_models demo_built,
                       model_parameters := built_model_parameters demo_built,
                       errors_dict := built_errors_dict demo_built\<rparr>"
  have fo: "forecast_output ?self1 = Some demo_output"
    by (simp add: demo_built_def)
  let ?self2 = "?self1\<lparr>eval_metrics := Some demo_train_metrics,
                       test_eval_metrics := Some [(''A'', demo_col)]\<rparr>"
  have rs: "report_stage demo_collaborators_no_rows demo_spec ?self2 (Some demo_summary)
              (Some demo_data)
     = Inr (demo_sections_no_rows,
            ?self2\<lparr>formatted_global_explanation := None, formatted_local_explanation := None\<rparr>)"
    by (rule demo_no_rows_report_stage) (simp_all add: demo_built_def)
  show ?thesis
    by (simp add: generate_report_def prev bm demo_no_rows_metrics_stage
          demo_metrics_stage[OF fo] rs split: prod.splits)
qed

text \<open>
  Claim C7 as stated does not hold for the backtest section. Lines 250 to 264 test the
  mode alone: with a statistics file that has its header and no row, every mean is NaN,
  \<open>min\<close> keeps the first model, and the finished report carries the heading
  \<open>Back Testing Metrics\<close> and the table without rows.
\<close>

theorem backtest_section_over_empty_table_counterexample:
  "csv_files demo_collaborators_no_rows
      (spec_output_directory demo_spec @ ''/'' @ ''backtest_stats.csv'')
     = Some demo_stats_no_rows
   \<and> map snd demo_stats_no_rows = [[], [], []]
   \<and> map_sum id run_sections
        (snd (generate_report demo_collaborators_no_rows demo_spec demo_self))
     = Inr demo_sections_no_rows
   \<and> Heading ''Back Testing Metrics'' 2 \<in> set demo_sections_no_rows
   \<and> DataTable (Backtest_table demo_stats_no_rows) \<in> set demo_sections_no_rows"
proof -
  from demo_no_rows_generate_report
  have "map_sum id run_sections
        (snd (generate_report demo_collaborators_no_rows demo_spec demo_self))
     = Inr demo_sections_no_rows"
    by auto
  then show ?thesis
    by (simp add: demo_sections_no_rows_def)
       (simp add: demo_collaborators_no_rows_def demo_spec_def demo_stats_no_rows_def)
qed

text \<open>
  Claim C7, amended. The sections of a finished \<open>generate_report\<close> hold no test metrics,
  summary metrics or training metrics section whose table is missing or empty, and no
  forecast plots without a series. The heading \<open>Test Data Evaluation Metrics\<close> appears
  only with a test metrics table that is present and not empty, shown right in the
  sequence; the same holds for the summary metrics and for the training metrics, and the
  forecast plots appear only when a series has forecast output. Without test data, on an
  object whose test metrics are unset, the two test sections do not appear. The backtest
  section carries no such test and is outside this statement. The model's own sections
  are taken not to reuse these four headings.
\<close>

theorem no_section_without_artifact:
  assumes "generate_report C S self = (lg, Inr run)"
    and "\<forall>rep. model_generate_report C = Inr rep \<longrightarrow>
           Heading ''Test Data Evaluation Metrics'' 2 \<notin> set (other_sections rep) \<and>
           Heading ''Test Data Summary Metrics'' 2 \<notin> set (other_sections rep) \<and>
           Heading ''Training Data Metrics'' 2 \<notin> set (other_sections rep) \<and>
           Heading ''Forecasted Data Overlaying Historical'' 2 \<notin> set (other_sections rep)"
  shows "(Heading ''Test Data Evaluation Metrics'' 2 \<in> set (run_sections run) \<longrightarrow>
            (\<exists>t. test_eval_metrics (run_self run) = Some t \<and> t \<noteq> [] \<and>
                 DataTable (Metrics_table t) \<in> set (run_sections run)))
       \<and> (Heading ''Test Data Summary Metrics'' 2 \<in> set (run_sections run) \<longrightarrow>
            (\<exists>m. run_summary_metrics run = Some m \<and> \<not> frame_empty m \<and>
                 DataTable (Summary_table m) \<in> set (run_sections run)))
       \<and> (Heading ''Training Data Metrics'' 2 \<in> set (run_sections run) \<longrightarrow>
            (\<exists>m. eval_metrics (run_self run) = Some m \<and> \<not> frame_empty m \<and>
                 DataTable (Frame_table m) \<in> set (run_sections run)))
       \<and> (Heading ''Forecasted Data Overlaying Historical'' 2 \<in> set (run_sections run) \<longrightarrow>
            (\<exists>output. forecast_output (run_self run) = Some output \<and> output \<noteq> []))
       \<and> (spec_test_data S = None \<and> test_eval_metrics self = None \<longrightarrow>
            Heading ''Test Data Evaluation Metrics'' 2 \<notin> set (run_sections run) \<and>
            Heading ''Test Data Summary Metrics'' 2 \<notin> set (run_sections run))"
proof -
  let ?secs = "run_sections run"
  let ?tms = "test_metrics_sections (run_self run) (run_summary_metrics run)"
  let ?trs = "train_metrics_sections (run_self run)"
  have where_from:
    "(title = ''Back Testing Metrics'')
     \<or> (title = ''Forecasted Data Overlaying Historical'' \<and>
         (\<exists>output. forecast_output (run_self run) = Some output \<and> output \<noteq> []))
     \<or> (\<exists>rep. model_generate_report C = Inr rep \<and> Heading title 2 \<in> set (other_sections rep))
     \<or> Heading title 2 \<in> set ?tms \<or> Heading title 2 \<in> set ?trs
     \<or> title = ''Reference: YAML File''"
    if "Heading title 2 \<in> set ?secs" for title
    using run_sections_cases[OF assms(1)]
  proof
    assume "?secs = []" with that show ?thesis by simp
  next
    assume "\<exists>rep backtest plots test_data.
            model_generate_report C = Inr rep \<and>
            backtest_sections C S = Inr backtest \<and>
            forecast_plots (run_self run) test_data = Inr plots \<and>
            ?secs = [Summary_block (model_description rep)] @ backtest @ plots
                  @ other_sections rep @ ?tms @ ?trs
                  @ [Heading ''Reference: YAML File'' 2, Yaml_appendix]"
    then obtain rep backtest plots test_data where
      rep: "model_generate_report C = Inr rep"
      and bt: "backtest_sections C S = Inr backtest"
      and fp: "forecast_plots (run_self run) test_data = Inr plots"
      and secs: "?secs = [Summary_block (model_description rep)] @ backtest @ plots
                  @ other_sections rep @ ?tms @ ?trs
                  @ [Heading ''Reference: YAML File'' 2, Yaml_appendix]"
      by blast
    from that secs have "Heading title 2 \<in> set backtest \<or> Heading title 2 \<in> set plots
        \<or> Heading title 2 \<in> set (other_sections rep)
        \<or> Heading title 2 \<in> set ?tms \<or> Heading title 2 \<in> set ?trs
        \<or> title = ''Reference: YAML File''"
      by auto
    with backtest_sections_headings[OF bt] forecast_plots_headings[OF fp] rep
    show ?thesis by blast
  qed
  have sub: "set ?tms \<subseteq> set ?secs" "set ?trs \<subseteq> set ?secs" if "?secs \<noteq> []"
    using run_sections_cases[OF assms(1)] that by auto
  have c1: "\<exists>t. test_eval_metrics (run_self run) = Some t \<and> t \<noteq> [] \<and>
                 DataTable (Metrics_table t) \<in> set ?secs"
    if h: "Heading ''Test Data Evaluation Metrics'' 2 \<in> set ?secs"
  proof -
    from where_from[OF h] assms(2)
    have "Heading ''Test Data Evaluation Metrics'' 2 \<in> set ?tms \<or>
          Heading ''Test Data Evaluation Metrics'' 2 \<in> set ?trs"
      by auto
    then have "\<exists>t. test_eval_metrics (run_self run) = Some t \<and> t \<noteq> [] \<and>
                 DataTable (Metrics_table t) \<in> set ?tms"
      by (auto simp: test_metrics_sections_cases train_metrics_sections_cases
               split: option.splits if_splits)
    moreover from h have "?secs \<noteq> []" by auto
    ultimately show ?thesis using sub(1) by blast
  qed
  have c2: "\<exists>m. run_summary_metrics run = Some m \<and> \<not> frame_empty m \<and>
                 DataTable (Summary_table m) \<in> set ?secs"
    if h: "Heading ''Test Data Summary Metrics'' 2 \<in> set ?secs"
  proof -
    from where_from[OF h] assms(2)
    have "Heading ''Test Data Summary Metrics'' 2 \<in> set ?tms \<or>
          Heading ''Test Data Summary Metrics'' 2 \<in> set ?trs"
      by auto
    then have "\<exists>m. run_summary_metrics run = Some m \<and> \<not> frame_empty m \<and>
                 DataTable (Summary_table m) \<in> set ?tms"
      by (auto simp: test_metrics_sections_cases train_metrics_sections_cases
               split: option.splits if_splits)
    moreover from h have "?secs \<noteq> []" by auto
    ultimately show ?thesis using sub(1) by blast
  qed
  have c3: "\<exists>m. eval_metrics (run_self run) = Some m \<and> \<not> frame_empty m \<and>
                 DataTable (Frame_table m) \<in> set ?secs"
    if h: "Heading ''Training Data Metrics'' 2 \<in> set ?secs"
  proof -
    from where_from[OF h] assms(2)
    have "Heading ''Training Data Metrics'' 2 \<in> set ?tms \<or>
          Heading ''Training Data Metrics'' 2 \<in> set ?trs"
      by auto
    then have "\<exists>m. eval_metrics (run_self run) = Some m \<and> \<not> frame_empty m \<and>
                 DataTable (Frame_table m) \<in> set ?trs"
      by (auto simp: test_metrics_sections_cases train_metrics_sections_cases
               split: option.splits if_splits)
    moreover from h have "?secs \<noteq> []" by auto
    ultimately show ?thesis using sub(2) by blast
  qed
  have c4: "\<exists>output. forecast_output (run_self run) = Some output \<and> output \<noteq> []"
    if h: "Heading ''Forecasted Data Overlaying Historical'' 2 \<in> set ?secs"
    using where_from[OF h] assms(2)
    by (auto simp: test_metrics_sections_cases train_metrics_sections_cases
             split: option.splits if_splits)
  have c5: "Heading ''Test Data Evaluation Metrics'' 2 \<notin> set ?secs \<and>
            Heading ''Test Data Summary Metrics'' 2 \<notin> set ?secs"
    if h: "spec_test_data S = None \<and> test_eval_metrics self = None"
  proof -
    from run_without_test_data[OF assms(1)] h
    have "run_summary_metrics run = None" "test_eval_metrics (run_self run) = None"
      by simp_all
    with c1 c2 show ?thesis by auto
  qed
  from c1 c2 c3 c4 c5 show ?thesis by blast
qed

lemma demo_generate_report_no_test:
  "\<exists>lg run. generate_report demo_collaborators demo_spec_no_test demo_self = (lg, Inr run)"
proof -
  have prev: "spec_previous_output_dir demo_spec_no_test = None"
    and gen: "spec_generate_report demo_spec_no_test"
    and td: "spec_test_data demo_spec_no_test = None"
    and bm: "build_model demo_collaborators = Inr (demo_result_df, demo_built)"
    and rep: "model_generate_report demo_collaborators = Inr demo_model_report"
    by (simp_all add: demo_spec_no_test_def demo_spec_def demo_collaborators_def)
  have train: "generate_train_metrics demo_collaborators s = Inr (Some demo_train_metrics)" for s
    by (simp add: generate_train_metrics_def demo_collaborators_def)
  have bt: "backtest_sections demo_collaborators demo_spec_no_test
              = backtest_sections demo_collaborators demo_spec"
    by (simp add: backtest_sections_def demo_spec_no_test_def)
  have ms: "metrics_stage demo_collaborators demo_spec_no_test s
              = ([], Inr (s\<lparr>eval_metrics := Some demo_train_metrics\<rparr>, None, None))" for s
    by (simp add: metrics_stage_def gen td train)
  have rs: "\<exists>secs s'. report_stage demo_collaborators demo_spec_no_test s None None = Inr (secs, s')"
    if "forecast_output s = Some demo_output" for s
    using that
    by (simp add: report_stage_def gen rep build_report_sections_def bt demo_backtest_sections
          forecast_plots_def Let_def)
  let ?self1 = "demo_self\<lparr>forecast_output := built_forecast_output demo_built,
                       models := built_models demo_built,
                       model_parameters := built_model_parameters demo_built,
                       errors_dict := built_errors_dict demo_built\<rparr>"
  have "forecast_output (?self1\<lparr>eval_metrics := Some demo_train_metrics\<rparr>) = Some demo_output"
    by (simp add: demo_built_def)
  from rs[OF this] obtain secs s' where
    "report_stage demo_collaborators demo_spec_no_test
       (?self1\<lparr>eval_metrics := Some demo_train_metrics\<rparr>) None None = Inr (secs, s')"
    by blast
  then show ?thesis
    by (simp add: generate_report_def prev bm ms split: prod.splits)
qed

text \<open>
  The statement on the sample run, where the four sections appear with their artifacts,
  and on the same run without test data, where the two test sections are absent.
\<close>

theorem no_section_without_artifact_witness:
  "(\<exists>lg run. generate_report demo_collaborators demo_spec demo_self = (lg, Inr run)
       \<and> Heading ''Test Data Evaluation Metrics'' 2 \<in> set (run_sections run)
       \<and> Heading ''Test Data Summary Metrics'' 2 \<in> set (run_sections run)
       \<and> Heading ''Training Data Metrics'' 2 \<in> set (run_sections run)
       \<and> Heading ''Forecasted Data Overlaying Historical'' 2 \<in> set (run_sections run)
       \<and> (\<exists>t. test_eval_metrics (run_self run) = Some t \<and> t \<noteq> [])
       \<and> (\<exists>m. run_summary_metrics run = Some m \<and> \<not> frame_empty m)
       \<and> (\<exists>m. eval_metrics (run_self run) = Some m \<and> \<not> frame_empty m)
       \<and> (\<exists>output. forecast_output (run_self run) = Some output \<and> output \<noteq> []))
   \<and> (\<exists>lg run. generate_report demo_collaborators demo_spec_no_test demo_self = (lg, Inr run)
       \<and> spec_test_data demo_spec_no_test = None
       \<and> test_eval_metrics demo_self = None
       \<and> Heading ''Test Data Evaluation Metrics'' 2 \<notin> set (run_sections run)
       \<and> Heading ''Test Data Summary Metrics'' 2 \<notin> set (run_sections run))"
proof -
  have other: "\<forall>rep. model_generate_report demo_collaborators = Inr rep \<longrightarrow>
           Heading ''Test Data Evaluation Metrics'' 2 \<notin> set (other_sections rep) \<and>
           Heading ''Test Data Summary Metrics'' 2 \<notin> set (other_sections rep) \<and>
           Heading ''Training Data Metrics'' 2 \<notin> set (other_sections rep) \<and>
           Heading ''Forecasted Data Overlaying Historical'' 2 \<notin> set (other_sections rep)"
    by (auto simp: demo_collaborators_def demo_model_report_def)
  from demo_generate_report obtain lg run where
    run: "generate_report demo_collaborators demo_spec demo_self = (lg, Inr run)"
    and secs: "run_sections run = demo_sections"
    by blast
  have heads: "Heading ''Test Data Evaluation Metrics'' 2 \<in> set (run_sections run)"
    "Heading ''Test Data Summary Metrics'' 2 \<in> set (run_sections run)"
    "Heading ''Training Data Metrics'' 2 \<in> set (run_sections run)"
    "Heading ''Forecasted Data Overlaying Historical'' 2 \<in> set (run_sections run)"
    by (simp_all add: secs demo_sections_def)
  from no_section_without_artifact[OF run other] heads
  have first: "\<exists>lg run. generate_report demo_collaborators demo_spec demo_self = (lg, Inr run)
       \<and> Heading ''Test Data Evaluation Metrics'' 2 \<in> set (run_sections run)
       \<and> Heading ''Test Data Summary Metrics'' 2 \<in> set (run_sections run)
       \<and> Heading ''Training Data Metrics'' 2 \<in> set (run_sections run)
       \<and> Heading ''Forecasted Data Overlaying Historical'' 2 \<in> set (run_sections run)
       \<and> (\<exists>t. test_eval_metrics (run_self run) = Some t \<and> t \<noteq> [])
       \<and> (\<exists>m. run_summary_metrics run = Some m \<and> \<not> frame_empty m)
       \<and> (\<exists>m. eval_metrics (run_self run) = Some m \<and> \<not> frame_empty m)
       \<and> (\<exists>output. forecast_output (run_self run) = Some output \<and> output \<noteq> [])"
    using run by (intro exI[of _ lg] exI[of _ run]) blast
  from demo_generate_report_no_test obtain lg' run' where
    run': "generate_report demo_collaborators demo_spec_no_test demo_self = (lg', Inr run')"
    by blast
  have none: "spec_test_data demo_spec_no_test = None" "test_eval_metrics demo_self = None"
    by (simp_all add: demo_spec_no_test_def demo_self_def)
  from no_section_without_artifact[OF run' other] none
  have "Heading ''Test Data Evaluation Metrics'' 2 \<notin> set (run_sections run')
      \<and> Heading ''Test Data Summary Metrics'' 2 \<notin> set (run_sections run')"
    by blast
  with run' none have second:
    "\<exists>lg run. generate_report demo_collaborators demo_spec_no_test demo_self = (lg, Inr run)
       \<and> spec_test_data demo_spec_no_test = None
       \<and> test_eval_metrics demo_self = None
       \<and> Heading ''Test Data Evaluation Metrics'' 2 \<notin> set (run_sections run)
       \<and> Heading ''Test Data Summary Metrics'' 2 \<notin> set (run_sections run)"
    by blast
  from first second show ?thesis by (rule conjI)
qed

section \<open>Properties of saving the outputs\<close>

text \<open>
  Claim C6 as stated does not hold for a table that is empty. \<open>_save_report\<close> tests
  \<open>metrics_df is not None\<close> only: with metrics asked for and an empty training table, the
  metrics file is written and no warning about the training metrics is logged.
\<close>

theorem empty_training_metrics_written_counterexample:
  "spec_generate_metrics demo_spec
   \<and> frame_empty (empty_frame :: string frame)
   \<and> save_report demo_spec demo_self [] demo_result_df (Some empty_frame) None
     = ([(WARN, Test_metrics_not_generated), (INFO, Outputs_generated),
         (INFO, All_modeling_completed)],
        [Report_html [], Forecast_csv demo_result_df, Metrics_csv \<lparr>cols = [], rows = []\<rparr>])"
  by (simp add: save_report_def demo_spec_def demo_self_def empty_frame_def frame_empty_def)

text \<open>
  Claim C6, amended. With metrics asked for and the training table absent (\<open>None\<close>),
  \<open>_save_report\<close> writes no metrics file and logs a warning; the forecast file is written
  in every case. A table that is present, empty or not, is written with its columns
  renamed and without that warning. The function raises nothing of its own: it is a total
  function of its arguments.
\<close>

theorem absent_training_metrics_logged_not_written:
  assumes "spec_generate_metrics S"
    and "save_report S self secs result_df metrics_df test_metrics_df = (lg, files)"
  shows "Forecast_csv result_df \<in> set files
       \<and> (metrics_df = None \<longrightarrow>
            (\<forall>m. Metrics_csv m \<notin> set files) \<and>
            (WARN, Training_metrics_not_generated) \<in> set lg)
       \<and> (\<forall>m. metrics_df = Some m \<longrightarrow>
            Metrics_csv (m\<lparr>cols := map (rename_label
                (if has_artificial_series self then original_target_column self
                 else ''Series 1'')) (cols m)\<rparr>) \<in> set files \<and>
            (WARN, Training_metrics_not_generated) \<notin> set lg)"
proof -
  from assms(2) have lg: "lg = fst (save_report S self secs result_df metrics_df test_metrics_df)"
    and files: "files = snd (save_report S self secs result_df metrics_df test_metrics_df)"
    by simp_all
  have a: "Forecast_csv result_df \<in> set files"
    unfolding files by (simp add: save_report_def Let_def)
  have b: "(\<forall>m. Metrics_csv m \<notin> set files) \<and> (WARN, Training_metrics_not_generated) \<in> set lg"
    if "metrics_df = None"
    unfolding files lg using that assms(1)
    by (auto simp: save_report_def Let_def split: option.splits)
  have c: "Metrics_csv (m\<lparr>cols := map (rename_label
                (if has_artificial_series self then original_target_column self
                 else ''Series 1'')) (cols m)\<rparr>) \<in> set files \<and>
            (WARN, Training_metrics_not_generated) \<notin> set lg"
    if "metrics_df = Some m" for m
    unfolding files lg using that assms(1)
    by (auto simp: save_report_def Let_def split: option.splits)
  from a b c show ?thesis by blast
qed

text \<open>
  The amended statement with the training table absent and with the sample table.
\<close>

theorem absent_training_metrics_logged_not_written_witness:
  "spec_generate_metrics demo_spec
   \<and> (\<exists>lg files. save_report demo_spec demo_self [] demo_result_df None None = (lg, files)
        \<and> Forecast_csv demo_result_df \<in> set files
        \<and> (\<forall>m. Metrics_csv m \<notin> set files)
        \<and> (WARN, Training_metrics_not_generated) \<in> set lg)
   \<and> (\<exists>lg files. save_report demo_spec demo_self [] demo_result_df (Some demo_train_metrics) None
          = (lg, files)
        \<and> Metrics_csv demo_train_metrics \<in> set files
        \<and> (WARN, Training_metrics_not_generated) \<notin> set lg)"
proof -
  have g: "spec_generate_metrics demo_spec" by (simp add: demo_spec_def)
  obtain lg files where
    r: "save_report demo_spec demo_self [] demo_result_df None None = (lg, files)"
    by (cases "save_report demo_spec demo_self [] demo_result_df None None")
  from absent_training_metrics_logged_not_written[OF g r]
  have first: "\<exists>lg files. save_report demo_spec demo_self [] demo_result_df None None = (lg, files)
        \<and> Forecast_csv demo_result_df \<in> set files
        \<and> (\<forall>m. Metrics_csv m \<notin> set files)
        \<and> (WARN, Training_metrics_not_generated) \<in> set lg"
    using r by blast
  obtain lg' files' where
    r': "save_report demo_spec demo_self [] demo_result_df (Some demo_train_metrics) None
           = (lg', files')"
    by (cases "save_report demo_spec demo_self [] demo_result_df (Some demo_train_metrics) None")
  have same: "demo_train_metrics\<lparr>cols := map (rename_label
                (if has_artificial_series demo_self then original_target_column demo_self
                 else ''Series 1'')) (cols demo_train_metrics)\<rparr> = demo_train_metrics"
    by (simp add: demo_train_metrics_def demo_self_def rename_label_def)
  from absent_training_metrics_logged_not_written[OF g r'] same
  have "Metrics_csv demo_train_metrics \<in> set files'
        \<and> (WARN, Training_metrics_not_generated) \<notin> set lg'"
    by auto
  with r' have second:
    "\<exists>lg files. save_report demo_spec demo_self [] demo_result_df (Some demo_train_metrics) None
          = (lg, files)
        \<and> Metrics_csv demo_train_metrics \<in> set files
        \<and> (WARN, Training_metrics_not_generated) \<notin> set lg"
    by blast
  from g first second show ?thesis by blast
qed

section \<open>Properties of the explanations\<close>

lemma local_explainer_cases:
  assumes "local_explainer E k s self = Inr self'"
  shows "\<exists>df. self' = self\<lparr>local_explanation := (local_explanation self)(s \<mapsto> df)\<rparr>"
  using assms
  by (auto simp: local_explainer_def split: sum.splits if_splits)

lemma explain_series_unfitted:
  assumes "models self = Some fitted" "fitted s = None"
  shows "explain_series E ratio self (s, d) = ([(WARN, Skipping_explanations s)], self, None)"
  using assms by (simp add: explain_series_def)

lemma explain_series_fitted:
  assumes "models self = Some fitted" "fitted s \<noteq> None"
  shows "explain_series E ratio self (s, d) =
     (case encode_trimmed E (tail (max (py_int (of_nat (length (sd_rows d)) * ratio)) 5) d) of
        Inl e \<Rightarrow> ([], self, Some e)
      | Inr enc \<Rightarrow>
          (case shap_values E (s, enc) enc of
             Inl e \<Rightarrow> ([], self, Some e)
           | Inr vals \<Rightarrow>
               (case local_explainer E (s, enc) s self of
                  Inl e \<Rightarrow> ([], self, Some e)
                | Inr self1 \<Rightarrow>
                    if vals = [] then ([(WARN, No_explanations_generated)], self1, None)
                    else ([],
                          self1\<lparr>global_explanation := (global_explanation self1)
                            (s \<mapsto> zip (drop 1 (sd_columns
                                (tail (max (py_int (of_nat (length (sd_rows d)) * ratio)) 5) d)))
                              (average_absolute vals))\<rparr>,
                          None))))"
  using assms by (simp add: explain_series_def Let_def split: sum.splits)

lemma explain_series_no_models:
  assumes "models self = None"
  shows "explain_series E ratio self item = ([], self, Some TypeError)"
  using assms by (simp add: explain_series_def split: prod.splits)

lemma explain_series_raises:
  assumes "explain_series E ratio self item = (lg, self', Some e)"
  shows "self' = self \<and> lg = []"
proof -
  obtain s d where item: "item = (s, d)" by (cases item)
  show ?thesis
  proof (cases "models self")
    case None
    from explain_series_no_models[OF None, of E ratio item] assms show ?thesis by simp
  next
    case (Some fitted)
    show ?thesis
    proof (cases "fitted s = None")
      case True
      from explain_series_unfitted[OF Some True, of E ratio d] assms item show ?thesis by simp
    next
      case False
      from assms[unfolded item explain_series_fitted[OF Some False]] show ?thesis
        by (simp split: sum.splits if_splits)
    qed
  qed
qed

lemma explain_series_cases:
  assumes "explain_series E ratio self (s, d) = (lg, self', None)"
  shows "\<exists>fitted. models self = Some fitted \<and>
     (if fitted s = None then lg = [(WARN, Skipping_explanations s)] \<and> self' = self
      else \<exists>enc vals self1.
             encode_trimmed E
               (tail (max (py_int (of_nat (length (sd_rows d)) * ratio)) 5) d) = Inr enc \<and>
             shap_values E (s, enc) enc = Inr vals \<and>
             local_explainer E (s, enc) s self = Inr self1 \<and>
             (if vals = []
              then lg = [(WARN, No_explanations_generated)] \<and> self' = self1
              else lg = [] \<and>
                   self' = self1\<lparr>global_explanation := (global_explanation self1)
                     (s \<mapsto> zip (drop 1 (sd_columns
                                (tail (max (py_int (of_nat (length (sd_rows d)) * ratio)) 5) d)))
                              (average_absolute vals))\<rparr>))"
proof (cases "models self")
  case None
  from explain_series_no_models[OF None, of E ratio "(s, d)"] assms show ?thesis by simp
next
  case (Some fitted)
  show ?thesis
  proof (cases "fitted s = None")
    case True
    from explain_series_unfitted[OF Some True, of E ratio d] assms Some True
    show ?thesis by auto
  next
    case False
    from assms[unfolded explain_series_fitted[OF Some False]] Some False show ?thesis
      by (simp split: sum.splits if_splits)
  qed
qed

lemma explain_series_models:
  assumes "explain_series E ratio self item = (lg, self', r)"
  shows "models self' = models self"
proof (cases r)
  case (Some e)
  with explain_series_raises assms show ?thesis by blast
next
  case None
  obtain s d where item: "item = (s, d)" by (cases item)
  from explain_series_cases[OF assms[unfolded item None]] show ?thesis
    by (auto split: if_splits dest!: local_explainer_cases)
qed

lemma explain_series_other_series:
  assumes "explain_series E ratio self (s', d) = (lg, self', r)" "s \<noteq> s'"
  shows "global_explanation self' s = global_explanation self s \<and>
         local_explanation self' s = local_explanation self s"
proof (cases r)
  case (Some e)
  with explain_series_raises assms show ?thesis by blast
next
  case None
  from explain_series_cases[OF assms(1)[unfolded None]] assms(2) show ?thesis
    by (auto split: if_splits dest!: local_explainer_cases)
qed

lemma explain_series_keeps_local:
  assumes "explain_series E ratio self item = (lg, self', r)" "local_explanation self s \<noteq> None"
  shows "local_explanation self' s \<noteq> None"
proof (cases r)
  case (Some e)
  with explain_series_raises assms show ?thesis by blast
next
  case None
  obtain s' d where item: "item = (s', d)" by (cases item)
  from explain_series_cases[OF assms(1)[unfolded item None]] assms(2) show ?thesis
    by (auto split: if_splits dest!: local_explainer_cases)
qed

lemma explain_series_stores_local:
  assumes "explain_series E ratio self (s, d) = (lg, self', None)"
    "models self = Some fitted" "fitted s \<noteq> None"
  shows "local_explanation self' s \<noteq> None"
  using explain_series_cases[OF assms(1)] assms(2,3)
  by (auto split: if_splits dest!: local_explainer_cases)

lemma explain_series_empty_attribution:
  assumes "explain_series E ratio self (s, d) = (lg, self', None)"
    "models self = Some fitted" "fitted s \<noteq> None"
    "\<forall>enc. encode_trimmed E
             (tail (max (py_int (of_nat (length (sd_rows d)) * ratio)) 5) d) = Inr enc
           \<longrightarrow> shap_values E (s, enc) enc = Inr []"
  shows "global_explanation self' s = global_explanation self s \<and>
         lg = [(WARN, No_explanations_generated)]"
  using explain_series_cases[OF assms(1)] assms(2,3,4)
  by (auto split: if_splits dest!: local_explainer_cases)

lemma explain_loop_step:
  "explain_loop E ratio self (item # rest) = (lg, self', r) \<Longrightarrow>
   (\<exists>e. explain_series E ratio self item = (lg, self', Some e) \<and> r = Some e) \<or>
   (\<exists>lg1 self1 lg2. explain_series E ratio self item = (lg1, self1, None) \<and>
        explain_loop E ratio self1 rest = (lg2, self', r) \<and> lg = lg1 @ lg2)"
  by (auto split: prod.splits option.splits)

lemma explain_loop_models:
  "explain_loop E ratio self items = (lg, self', r) \<Longrightarrow> models self' = models self"
proof (induction items arbitrary: self lg)
  case Nil
  then show ?case by simp
next
  case (Cons item rest)
  from explain_loop_step[OF Cons.prems] show ?case
  proof (elim disjE exE conjE)
    fix e assume "explain_series E ratio self item = (lg, self', Some e)"
    then show ?thesis by (rule explain_series_models)
  next
    fix lg1 self1 lg2
    assume "explain_series E ratio self item = (lg1, self1, None)"
      and "explain_loop E ratio self1 rest = (lg2, self', r)"
    then show ?thesis
      using Cons.IH explain_series_models by metis
  qed
qed

lemma explain_loop_other_series:
  "explain_loop E ratio self items = (lg, self', r) \<Longrightarrow> s \<notin> fst ` set items \<Longrightarrow>
   global_explanation self' s = global_explanation self s \<and>
   local_explanation self' s = local_explanation self s"
proof (induction items arbitrary: self lg)
  case Nil
  then show ?case by simp
next
  case (Cons item rest)
  obtain s' d where item: "item = (s', d)" by (cases item)
  from Cons.prems(2) item have ne: "s \<noteq> s'" and nin: "s \<notin> fst ` set rest" by auto
  from explain_loop_step[OF Cons.prems(1)] show ?case
  proof (elim disjE exE conjE)
    fix e assume "explain_series E ratio self item = (lg, self', Some e)"
    then show ?thesis using explain_series_other_series[OF _ ne] item by blast
  next
    fix lg1 self1 lg2
    assume a: "explain_series E ratio self item = (lg1, self1, None)"
      and b: "explain_loop E ratio self1 rest = (lg2, self', r)"
    from explain_series_other_series[OF a[unfolded item] ne] Cons.IH[OF b nin]
    show ?thesis by simp
  qed
qed

lemma explain_loop_unfitted:
  "explain_loop E ratio self items = (lg, self', r) \<Longrightarrow> models self = Some fitted \<Longrightarrow>
   fitted s = None \<Longrightarrow>
   global_explanation self' s = global_explanation self s \<and>
   local_explanation self' s = local_explanation self s"
proof (induction items arbitrary: self lg)
  case Nil
  then show ?case by simp
next
  case (Cons item rest)
  obtain s' d where item: "item = (s', d)" by (cases item)
  have step: "global_explanation self1 s = global_explanation self s \<and>
         local_explanation self1 s = local_explanation self s"
    if "explain_series E ratio self item = (lg1, self1, r1)" for lg1 self1 r1
  proof (cases "s = s'")
    case True
    with explain_series_unfitted[OF Cons.prems(2,3), of E ratio d] that item
    show ?thesis by simp
  next
    case False
    from explain_series_other_series[OF that[unfolded item] False] show ?thesis .
  qed
  from explain_loop_step[OF Cons.prems(1)] show ?case
  proof (elim disjE exE conjE)
    fix e assume "explain_series E ratio self item = (lg, self', Some e)"
    then show ?thesis by (rule step)
  next
    fix lg1 self1 lg2
    assume a: "explain_series E ratio self item = (lg1, self1, None)"
      and b: "explain_loop E ratio self1 rest = (lg2, self', r)"
    from explain_series_models[OF a] Cons.prems(2) have "models self1 = Some fitted" by simp
    from Cons.IH[OF b this Cons.prems(3)] step[OF a] show ?thesis by simp
  qed
qed

lemma explain_loop_filter:
  "explain_loop E ratio self items = (lg, self', r) \<Longrightarrow> models self = Some fitted \<Longrightarrow>
   \<exists>lg'. explain_loop E ratio self (filter (\<lambda>item. fitted (fst item) \<noteq> None) items)
           = (lg', self', r)"
proof (induction items arbitrary: self lg)
  case Nil
  then show ?case by simp
next
  case (Cons item rest)
  obtain s d where item: "item = (s, d)" by (cases item)
  show ?case
  proof (cases "fitted s = None")
    case True
    from explain_series_unfitted[OF Cons.prems(2) True, of E ratio d] Cons.prems(1) item
    obtain lg2 where "explain_loop E ratio self rest = (lg2, self', r)"
      by (auto split: prod.splits)
    from Cons.IH[OF this Cons.prems(2)] True item show ?thesis by simp
  next
    case False
    from explain_loop_step[OF Cons.prems(1)] show ?thesis
    proof (elim disjE exE conjE)
      fix e assume "explain_series E ratio self item = (lg, self', Some e)" "r = Some e"
      with False item show ?thesis by simp
    next
      fix lg1 self1 lg2
      assume a: "explain_series E ratio self item = (lg1, self1, None)"
        and b: "explain_loop E ratio self1 rest = (lg2, self', r)"
      from explain_series_models[OF a] Cons.prems(2) have "models self1 = Some fitted" by simp
      from Cons.IH[OF b this] obtain lg' where
        "explain_loop E ratio self1 (filter (\<lambda>item. fitted (fst item) \<noteq> None) rest)
           = (lg', self', r)" by blast
      with a False item show ?thesis by simp
    qed
  qed
qed

lemma explain_loop_append_raise:
  "explain_loop E ratio self pre = (lg0, self1, None) \<Longrightarrow>
   explain_series E ratio self1 item = (lg1, self2, Some e) \<Longrightarrow>
   explain_loop E ratio self (pre @ item # rest) = (lg0 @ lg1, self2, Some e)"
proof (induction pre arbitrary: self lg0)
  case Nil
  then show ?case by simp
next
  case (Cons p pre)
  from explain_loop_step[OF Cons.prems(1)]
  obtain lga selfa lgb where a: "explain_series E ratio self p = (lga, selfa, None)"
    and b: "explain_loop E ratio selfa pre = (lgb, self1, None)" and lg: "lg0 = lga @ lgb"
    by auto
  from Cons.IH[OF b Cons.prems(2)] a lg show ?case by simp
qed

lemma demo_ratio:
  "ratio_table demo_explainers (spec_explanations_accuracy_mode demo_spec) = Some (1 / 5)"
  by (simp add: demo_explainers_def demo_spec_def)

lemma demo_tail: "tail (max (py_int (of_nat (length (sd_rows demo_series)) * (1 / 5))) 5) demo_series
    = demo_series"
  "tail (max (py_int (of_nat (length (sd_rows demo_no_rows)) * (1 / 5))) 5) demo_no_rows
    = demo_no_rows"
  by (simp_all add: tail_def demo_series_def demo_no_rows_def py_int_def)

lemma demo_fitted:
  "models demo_fitted_self = Some [''A'' \<mapsto> ''model A'', ''B'' \<mapsto> ''model B'', ''C'' \<mapsto> ''model C'']"
  by (simp add: demo_fitted_self_def)

lemma demo_explain_A:
  "explain_series demo_explainers (1 / 5) demo_fitted_self (''A'', demo_series)
     = ([], demo_fitted_self, Some (LibraryError ''shap''))"
proof -
  have f: "[''A'' \<mapsto> ''model A'', ''B'' \<mapsto> ''model B'', ''C'' \<mapsto> ''model C''] ''A'' \<noteq> None"
    by simp
  note st = explain_series_fitted[OF demo_fitted f, where E = demo_explainers
      and ratio = "1 / 5" and d = demo_series, unfolded demo_tail]
  show ?thesis
    unfolding st by (simp add: demo_explainers_def)
qed

lemma demo_average: "average_absolute (sd_rows demo_series) = [Num 3]"
  by (simp add: average_absolute_def demo_series_def transpose.simps np_average_def)

lemma demo_explain_B:
  "explain_series demo_explainers (1 / 5) demo_fitted_self (''B'', demo_series)
     = ([],
        demo_fitted_self\<lparr>local_explanation := [''B'' \<mapsto> demo_horizon],
                          global_explanation := [''B'' \<mapsto> [(''x'', Num 3)]]\<rparr>,
        None)"
proof -
  have enc: "encode_trimmed demo_explainers d = Inr d" for d
    by (simp add: demo_explainers_def)
  have shap: "shap_values demo_explainers (''B'', k) d = Inr (sd_rows d)" for k d
    by (simp add: demo_explainers_def)
  have loc: "local_explainer demo_explainers (''B'', k) ''B'' demo_fitted_self
      = Inr (demo_fitted_self\<lparr>local_explanation := [''B'' \<mapsto> demo_horizon]\<rparr>)" for k
    by (simp add: local_explainer_def shap)
       (simp add: demo_explainers_def demo_horizon_def demo_fitted_self_def demo_self_def)
  have ne: "sd_rows demo_series \<noteq> []" and cols: "sd_columns demo_series = [''ds'', ''x'']"
    by (simp_all add: demo_series_def)
  have f: "[''A'' \<mapsto> ''model A'', ''B'' \<mapsto> ''model B'', ''C'' \<mapsto> ''model C''] ''B'' \<noteq> None"
    by simp
  note st = explain_series_fitted[OF demo_fitted f, where E = demo_explainers
      and ratio = "1 / 5" and d = demo_series, unfolded demo_tail]
  show ?thesis
    unfolding st
    by (simp add: enc shap loc ne cols demo_average)
       (simp add: demo_fitted_self_def demo_self_def)
qed

text \<open>
  Claim C3 as stated does not hold in its second half. The loop of \<open>explain_model\<close> has
  no handler: with fitted models for \<open>A\<close> and \<open>B\<close> and an explainer that fails on \<open>A\<close>, the
  exception leaves \<open>explain_model\<close> and \<open>B\<close> gets neither a global nor a local
  explanation, although \<open>B\<close> alone is explained without trouble.
\<close>

theorem failed_series_blocks_later_series_counterexample:
  "explain_model demo_explainers demo_spec [(''A'', demo_series), (''B'', demo_series)]
       demo_fitted_self
     = ([(INFO, Calculating_explanations)], demo_fitted_self, Some (LibraryError ''shap''))
   \<and> global_explanation demo_fitted_self ''B'' = None
   \<and> local_explanation demo_fitted_self ''B'' = None
   \<and> explain_model demo_explainers demo_spec [(''B'', demo_series)] demo_fitted_self
     = ([(INFO, Calculating_explanations), (INFO, Global_explanations_completed),
         (INFO, Local_explanations_completed)],
        demo_fitted_self\<lparr>local_explanation := [''B'' \<mapsto> demo_horizon],
                          global_explanation := [''B'' \<mapsto> [(''x'', Num 3)]]\<rparr>,
        None)"
  by (simp add: explain_model_def demo_ratio demo_explain_A demo_explain_B)
     (simp add: demo_fitted_self_def demo_self_def)

lemma explain_loop_keeps_local:
  "explain_loop E ratio self items = (lg, self', r) \<Longrightarrow> local_explanation self s \<noteq> None \<Longrightarrow>
   local_explanation self' s \<noteq> None"
proof (induction items arbitrary: self lg)
  case Nil
  then show ?case by simp
next
  case (Cons item rest)
  from explain_loop_step[OF Cons.prems(1)] show ?case
  proof (elim disjE exE conjE)
    fix e assume "explain_series E ratio self item = (lg, self', Some e)"
    from explain_series_keeps_local[OF this Cons.prems(2)] show ?thesis .
  next
    fix lg1 self1 lg2
    assume a: "explain_series E ratio self item = (lg1, self1, None)"
      and b: "explain_loop E ratio self1 rest = (lg2, self', r)"
    from Cons.IH[OF b explain_series_keeps_local[OF a Cons.prems(2)]] show ?thesis .
  qed
qed

lemma explain_loop_stores_local:
  "explain_loop E ratio self items = (lg, self', None) \<Longrightarrow> models self = Some fitted \<Longrightarrow>
   fitted s \<noteq> None \<Longrightarrow> (s, d) \<in> set items \<Longrightarrow> local_explanation self' s \<noteq> None"
proof (induction items arbitrary: self lg)
  case Nil
  then show ?case by simp
next
  case (Cons item rest)
  from explain_loop_step[OF Cons.prems(1)]
  obtain lg1 self1 lg2 where a: "explain_series E ratio self item = (lg1, self1, None)"
    and b: "explain_loop E ratio self1 rest = (lg2, self', None)"
    by auto
  from explain_series_models[OF a] Cons.prems(2) have m1: "models self1 = Some fitted" by simp
  show ?case
  proof (cases "item = (s, d)")
    case True
    from explain_series_stores_local[OF a[unfolded True] Cons.prems(2,3)]
    have "local_explanation self1 s \<noteq> None" .
    from explain_loop_keeps_local[OF b this] show ?thesis .
  next
    case False
    with Cons.prems(4) have "(s, d) \<in> set rest" by simp
    from Cons.IH[OF b m1 Cons.prems(3) this] show ?thesis .
  qed
qed

lemma explain_loop_empty_attribution:
  "explain_loop E ratio self items = (lg, self', None) \<Longrightarrow> models self = Some fitted \<Longrightarrow>
   fitted s \<noteq> None \<Longrightarrow> (s, d) \<in> set items \<Longrightarrow> distinct (map fst items) \<Longrightarrow>
   \<forall>enc. encode_trimmed E
             (tail (max (py_int (of_nat (length (sd_rows d)) * ratio)) 5) d) = Inr enc
         \<longrightarrow> shap_values E (s, enc) enc = Inr [] \<Longrightarrow>
   global_explanation self' s = global_explanation self s \<and>
   (WARN, No_explanations_generated) \<in> set lg"
proof (induction items arbitrary: self lg)
  case Nil
  then show ?case by simp
next
  case (Cons item rest)
  from explain_loop_step[OF Cons.prems(1)]
  obtain lg1 self1 lg2 where a: "explain_series E ratio self item = (lg1, self1, None)"
    and b: "explain_loop E ratio self1 rest = (lg2, self', None)" and lg: "lg = lg1 @ lg2"
    by auto
  from explain_series_models[OF a] Cons.prems(2) have m1: "models self1 = Some fitted" by simp
  obtain s' d' where item: "item = (s', d')" by (cases item)
  show ?case
  proof (cases "s' = s")
    case True
    from Cons.prems(5) item True have nin: "s \<notin> fst ` set rest" by simp
    with Cons.prems(4) item True have "d' = d" by force
    with a item True have a': "explain_series E ratio self (s, d) = (lg1, self1, None)" by simp
    from explain_series_empty_attribution[OF a' Cons.prems(2,3,6)]
      explain_loop_other_series[OF b nin] lg
    show ?thesis by simp
  next
    case False
    with Cons.prems(4) item have mem: "(s, d) \<in> set rest" by auto
    from Cons.prems(5) have dist: "distinct (map fst rest)" by simp
    from explain_series_other_series[OF a[unfolded item]] False
    have "global_explanation self1 s = global_explanation self s" by auto
    with Cons.IH[OF b m1 Cons.prems(3) mem dist Cons.prems(6)] lg show ?thesis by simp
  qed
qed

lemma demo_explain_D:
  "explain_series demo_explainers (1 / 5) demo_fitted_self (''D'', demo_series)
     = ([(WARN, Skipping_explanations ''D'')], demo_fitted_self, None)"
  by (rule explain_series_unfitted[OF demo_fitted]) simp

lemma demo_explain_C:
  assumes "models self = Some [''A'' \<mapsto> ''model A'', ''B'' \<mapsto> ''model B'', ''C'' \<mapsto> ''model C'']"
  shows "explain_series demo_explainers (1 / 5) self (''C'', demo_no_rows)
     = ([(WARN, No_explanations_generated)],
        self\<lparr>local_explanation := (local_explanation self)(''C'' \<mapsto> demo_horizon)\<rparr>,
        None)"
proof -
  have enc: "encode_trimmed demo_explainers d = Inr d" for d
    by (simp add: demo_explainers_def)
  have shap: "shap_values demo_explainers (''C'', k) d = Inr (sd_rows d)" for k d
    by (simp add: demo_explainers_def)
  have loc: "local_explainer demo_explainers (''C'', k) ''C'' self
      = Inr (self\<lparr>local_explanation := (local_explanation self)(''C'' \<mapsto> demo_horizon)\<rparr>)" for k
    by (simp add: local_explainer_def shap)
       (simp add: demo_explainers_def demo_horizon_def)
  have none: "sd_rows demo_no_rows = []"
    by (simp add: demo_no_rows_def)
  have f: "[''A'' \<mapsto> ''model A'', ''B'' \<mapsto> ''model B'', ''C'' \<mapsto> ''model C''] ''C'' \<noteq> None"
    by simp
  note st = explain_series_fitted[OF assms f, where E = demo_explainers
      and ratio = "1 / 5" and d = demo_no_rows, unfolded demo_tail]
  show ?thesis
    unfolding st by (simp add: enc shap loc none)
qed

lemma demo_explain_model_skip:
  "explain_model demo_explainers demo_spec [(''D'', demo_series), (''B'', demo_series)]
       demo_fitted_self
     = ([(INFO, Calculating_explanations), (WARN, Skipping_explanations ''D''),
         (INFO, Global_explanations_completed), (INFO, Local_explanations_completed)],
        demo_fitted_self\<lparr>local_explanation := [''B'' \<mapsto> demo_horizon],
                          global_explanation := [''B'' \<mapsto> [(''x'', Num 3)]]\<rparr>,
        None)"
  by (simp add: explain_model_def demo_ratio demo_explain_D demo_explain_B)

lemma demo_explain_model_empty:
  "explain_model demo_explainers demo_spec [(''B'', demo_series), (''C'', demo_no_rows)]
       demo_fitted_self
     = ([(INFO, Calculating_explanations), (WARN, No_explanations_generated),
         (INFO, Global_explanations_completed), (INFO, Local_explanations_completed)],
        demo_fitted_self\<lparr>local_explanation := [''B'' \<mapsto> demo_horizon, ''C'' \<mapsto> demo_horizon],
                          global_explanation := [''B'' \<mapsto> [(''x'', Num 3)]]\<rparr>,
        None)"
proof -
  let ?self1 = "demo_fitted_self\<lparr>local_explanation := [''B'' \<mapsto> demo_horizon],
                          global_explanation := [''B'' \<mapsto> [(''x'', Num 3)]]\<rparr>"
  have "models ?self1 = Some [''A'' \<mapsto> ''model A'', ''B'' \<mapsto> ''model B'', ''C'' \<mapsto> ''model C'']"
    by (simp add: demo_fitted)
  note c = demo_explain_C[OF this]
  show ?thesis
    by (simp add: explain_model_def demo_ratio demo_explain_B c)
qed

text \<open>
  Claim C3, amended. A series without a fitted model is skipped with a warning and
  raises nothing; after \<open>explain_model\<close>, its entries of the global and of the local
  explanation are as they were before, and the object and the outcome are those of the
  run over the fitted series alone, so the skipped series leave the others unaffected. A
  failure while one series is explained is not contained: it leaves \<open>explain_model\<close>
  at once, with the object as the earlier series left it, and no later series is
  explained.
\<close>

theorem unfitted_series_skipped_failure_propagates:
  assumes "models self = Some fitted"
  shows "(fitted s = None \<longrightarrow>
            explain_series E ratio self (s, d) = ([(WARN, Skipping_explanations s)], self, None))
       \<and> (\<forall>lg self' r. explain_model E S items self = (lg, self', r) \<longrightarrow>
            (fitted s = None \<longrightarrow>
               global_explanation self' s = global_explanation self s \<and>
               local_explanation self' s = local_explanation self s) \<and>
            (\<exists>lg'. explain_model E S (filter (\<lambda>item. fitted (fst item) \<noteq> None) items) self
                     = (lg', self', r)))
       \<and> (\<forall>pre item rest lg0 self1 lg1 self2 e.
            ratio_table E (spec_explanations_accuracy_mode S) = Some ratio \<and>
            explain_loop E ratio self pre = (lg0, self1, None) \<and>
            explain_series E ratio self1 item = (lg1, self2, Some e) \<longrightarrow>
            explain_model E S (pre @ item # rest) self
              = ((INFO, Calculating_explanations) # lg0 @ lg1, self1, Some e))"
proof (intro conjI allI impI)
  assume "fitted s = None"
  from explain_series_unfitted[OF assms this]
  show "explain_series E ratio self (s, d) = ([(WARN, Skipping_explanations s)], self, None)" .
next
  fix lg self' r
  assume run: "explain_model E S items self = (lg, self', r)" and un: "fitted s = None"
  show "global_explanation self' s = global_explanation self s"
    and "local_explanation self' s = local_explanation self s"
  proof -
    have "global_explanation self' s = global_explanation self s \<and>
          local_explanation self' s = local_explanation self s"
    proof (cases "ratio_table E (spec_explanations_accuracy_mode S)")
      case None
      with run show ?thesis by (simp add: explain_model_def)
    next
      case (Some q)
      obtain lg1 self1 r1 where l: "explain_loop E q self items = (lg1, self1, r1)"
        by (cases "explain_loop E q self items")
      with run Some have "self1 = self'" by (cases r1) (simp_all add: explain_model_def)
      with explain_loop_unfitted[OF l assms un] show ?thesis by simp
    qed
    then show "global_explanation self' s = global_explanation self s"
      and "local_explanation self' s = local_explanation self s" by simp_all
  qed
next
  fix lg self' r
  assume run: "explain_model E S items self = (lg, self', r)"
  show "\<exists>lg'. explain_model E S (filter (\<lambda>item. fitted (fst item) \<noteq> None) items) self
                     = (lg', self', r)"
  proof (cases "ratio_table E (spec_explanations_accuracy_mode S)")
    case None
    with run show ?thesis by (simp add: explain_model_def)
  next
    case (Some q)
    obtain lg1 self1 r1 where l: "explain_loop E q self items = (lg1, self1, r1)"
      by (cases "explain_loop E q self items")
    with run Some have eq: "self1 = self'" "r1 = r"
      by (cases r1; simp add: explain_model_def)+
    from explain_loop_filter[OF l assms] obtain lg2 where
      "explain_loop E q self (filter (\<lambda>item. fitted (fst item) \<noteq> None) items)
         = (lg2, self1, r1)" by blast
    with Some eq show ?thesis
      by (cases r) (simp_all add: explain_model_def)
  qed
next
  fix pre item rest lg0 self1 lg1 self2 e
  assume h: "ratio_table E (spec_explanations_accuracy_mode S) = Some ratio \<and>
            explain_loop E ratio self pre = (lg0, self1, None) \<and>
            explain_series E ratio self1 item = (lg1, self2, Some e)"
  then have s2: "self2 = self1" using explain_series_raises by blast
  from h explain_loop_append_raise[of E ratio self pre lg0 self1 item lg1 self2 e rest]
  have "explain_loop E ratio self (pre @ item # rest) = (lg0 @ lg1, self2, Some e)" by blast
  with h s2 show "explain_model E S (pre @ item # rest) self
              = ((INFO, Calculating_explanations) # lg0 @ lg1, self1, Some e)"
    by (simp add: explain_model_def)
qed

text \<open>
  The amended statement on the sample object: \<open>D\<close> has no model and is skipped while
  \<open>B\<close> is explained, and the failure on \<open>A\<close> ends the run before \<open>B\<close>.
\<close>

theorem unfitted_series_skipped_failure_propagates_witness:
  "models demo_fitted_self
     = Some [''A'' \<mapsto> ''model A'', ''B'' \<mapsto> ''model B'', ''C'' \<mapsto> ''model C'']
   \<and> explain_series demo_explainers (1 / 5) demo_fitted_self (''D'', demo_series)
       = ([(WARN, Skipping_explanations ''D'')], demo_fitted_self, None)
   \<and> (\<exists>lg self'. explain_model demo_explainers demo_spec
                     [(''D'', demo_series), (''B'', demo_series)] demo_fitted_self
                   = (lg, self', None)
         \<and> global_explanation self' ''D'' = None
         \<and> global_explanation self' ''B'' = Some [(''x'', Num 3)]
         \<and> (\<exists>lg'. explain_model demo_explainers demo_spec [(''B'', demo_series)]
                      demo_fitted_self = (lg', self', None)))
   \<and> explain_model demo_explainers demo_spec [(''A'', demo_series), (''B'', demo_series)]
        demo_fitted_self
       = ([(INFO, Calculating_explanations)], demo_fitted_self, Some (LibraryError ''shap''))"
proof -
  let ?fitted = "[''A'' \<mapsto> ''model A'', ''B'' \<mapsto> ''model B'', ''C'' \<mapsto> ''model C'']"
  let ?self' = "demo_fitted_self\<lparr>local_explanation := [''B'' \<mapsto> demo_horizon],
                          global_explanation := [''B'' \<mapsto> [(''x'', Num 3)]]\<rparr>"
  have un: "?fitted ''D'' = None" by simp
  have g0: "global_explanation demo_fitted_self ''D'' = None"
    by (simp add: demo_fitted_self_def demo_self_def)
  have flt: "filter (\<lambda>item. ?fitted (fst item) \<noteq> None)
               [(''D'', demo_series), (''B'', demo_series)] = [(''B'', demo_series)]"
    by simp
  note main_fact = unfitted_series_skipped_failure_propagates[OF demo_fitted,
      where s = "''D''" and E = demo_explainers and S = demo_spec and ratio = "1 / 5"]
  from main_fact[where d = demo_series and items = "[]"] un
  have a: "explain_series demo_explainers (1 / 5) demo_fitted_self (''D'', demo_series)
       = ([(WARN, Skipping_explanations ''D'')], demo_fitted_self, None)"
    by blast
  from main_fact[where d = demo_series and items = "[(''D'', demo_series), (''B'', demo_series)]"]
    demo_explain_model_skip un
  have b1: "global_explanation ?self' ''D'' = global_explanation demo_fitted_self ''D''"
    and b2: "\<exists>lg'. explain_model demo_explainers demo_spec
                (filter (\<lambda>item. ?fitted (fst item) \<noteq> None)
                   [(''D'', demo_series), (''B'', demo_series)]) demo_fitted_self
              = (lg', ?self', None)"
    by blast+
  have b3: "global_explanation ?self' ''B'' = Some [(''x'', Num 3)]" by simp
  have loop0: "explain_loop demo_explainers (1 / 5) demo_fitted_self [] = ([], demo_fitted_self, None)"
    by simp
  from main_fact[where d = demo_series and items = "[]"] demo_ratio loop0 demo_explain_A
  have c: "explain_model demo_explainers demo_spec ([] @ (''A'', demo_series) # [(''B'', demo_series)])
        demo_fitted_self
       = ((INFO, Calculating_explanations) # [] @ [], demo_fitted_self, Some (LibraryError ''shap''))"
    by blast
  from b2[unfolded flt] obtain lg' where b2':
    "explain_model demo_explainers demo_spec [(''B'', demo_series)] demo_fitted_self
       = (lg', ?self', None)" by blast
  from b1 g0 have b1': "global_explanation ?self' ''D'' = None" by simp
  from b1' b2' b3 demo_explain_model_skip
  have b: "\<exists>lg self'. explain_model demo_explainers demo_spec
                     [(''D'', demo_series), (''B'', demo_series)] demo_fitted_self
                   = (lg, self', None)
         \<and> global_explanation self' ''D'' = None
         \<and> global_explanation self' ''B'' = Some [(''x'', Num 3)]
         \<and> (\<exists>lg'. explain_model demo_explainers demo_spec [(''B'', demo_series)]
                      demo_fitted_self = (lg', self', None))"
    by blast
  from demo_fitted a b c show ?thesis by simp
qed

text \<open>
  Claim C10. In a run of \<open>explain_model\<close> that completes, every series with a fitted
  model has a local explanation afterwards; and when the attribution values of such a
  series are empty, its entry of the global explanation is as it was before the run (so
  absent if it was absent) and the warning of line 686 is logged, the local explanation
  being stored all the same. The series of the data are distinct, as dict keys are.
\<close>

theorem local_explanation_stored_before_empty_check:
  assumes "models self = Some fitted" and "fitted s \<noteq> None"
    and "(s, d) \<in> set items" and "distinct (map fst items)"
    and "ratio_table E (spec_explanations_accuracy_mode S) = Some ratio"
    and "explain_model E S items self = (lg, self', None)"
  shows "local_explanation self' s \<noteq> None
       \<and> ((\<forall>enc. encode_trimmed E
                    (tail (max (py_int (of_nat (length (sd_rows d)) * ratio)) 5) d) = Inr enc
                 \<longrightarrow> shap_values E (s, enc) enc = Inr []) \<longrightarrow>
            global_explanation self' s = global_explanation self s \<and>
            (WARN, No_explanations_generated) \<in> set lg)"
proof -
  obtain lg1 self1 r1 where l: "explain_loop E ratio self items = (lg1, self1, r1)"
    by (cases "explain_loop E ratio self items")
  with assms(5,6) have r1: "r1 = None" and s1: "self1 = self'"
    and lg: "lg = (INFO, Calculating_explanations) # lg1
                    @ [(INFO, Global_explanations_completed), (INFO, Local_explanations_completed)]"
    by (cases r1; simp add: explain_model_def)+
  note l' = l[unfolded r1 s1]
  have a: "local_explanation self' s \<noteq> None"
    using explain_loop_stores_local[OF l' assms(1,2,3)] .
  have b: "global_explanation self' s = global_explanation self s \<and>
            (WARN, No_explanations_generated) \<in> set lg"
    if "\<forall>enc. encode_trimmed E
                    (tail (max (py_int (of_nat (length (sd_rows d)) * ratio)) 5) d) = Inr enc
                 \<longrightarrow> shap_values E (s, enc) enc = Inr []"
    using explain_loop_empty_attribution[OF l' assms(1,2,3,4) that] lg by simp
  from a b show ?thesis by blast
qed

text \<open>
  The statement on the sample object: \<open>C\<close> has a model and no rows of data, its
  attribution values are empty, and it ends with a local explanation and no global one.
\<close>

theorem local_explanation_stored_before_empty_check_witness:
  "models demo_fitted_self
     = Some [''A'' \<mapsto> ''model A'', ''B'' \<mapsto> ''model B'', ''C'' \<mapsto> ''model C'']
   \<and> distinct (map fst [(''B'', demo_series), (''C'', demo_no_rows)])
   \<and> shap_values demo_explainers (''C'', demo_no_rows) demo_no_rows = Inr []
   \<and> (\<exists>lg self'. explain_model demo_explainers demo_spec
                     [(''B'', demo_series), (''C'', demo_no_rows)] demo_fitted_self
                   = (lg, self', None)
         \<and> local_explanation self' ''C'' \<noteq> None
         \<and> local_explanation self' ''B'' \<noteq> None
         \<and> global_explanation self' ''C'' = None
         \<and> (WARN, No_explanations_generated) \<in> set lg)"
proof -
  let ?fitted = "[''A'' \<mapsto> ''model A'', ''B'' \<mapsto> ''model B'', ''C'' \<mapsto> ''model C'']"
  let ?items = "[(''B'', demo_series), (''C'', demo_no_rows)]"
  have fc: "?fitted ''C'' \<noteq> None" and fb: "?fitted ''B'' \<noteq> None" by simp_all
  have mc: "(''C'', demo_no_rows) \<in> set ?items" and mb: "(''B'', demo_series) \<in> set ?items"
    by simp_all
  have dist: "distinct (map fst ?items)" by simp
  have shap: "shap_values demo_explainers (''C'', demo_no_rows) demo_no_rows = Inr []"
    by (simp add: demo_explainers_def demo_no_rows_def)
  have empty: "\<forall>enc. encode_trimmed demo_explainers
                    (tail (max (py_int (of_nat (length (sd_rows demo_no_rows)) * (1 / 5))) 5)
                       demo_no_rows) = Inr enc
                 \<longrightarrow> shap_values demo_explainers (''C'', enc) enc = Inr []"
    unfolding demo_tail using shap by (auto simp: demo_explainers_def)
  have g0: "global_explanation demo_fitted_self ''C'' = None"
    by (simp add: demo_fitted_self_def demo_self_def)
  note run = demo_explain_model_empty
  from local_explanation_stored_before_empty_check[OF demo_fitted fc mc dist demo_ratio run] empty g0
  have c: "local_explanation
             (demo_fitted_self\<lparr>local_explanation := [''B'' \<mapsto> demo_horizon, ''C'' \<mapsto> demo_horizon],
                          global_explanation := [''B'' \<mapsto> [(''x'', Num 3)]]\<rparr>) ''C'' \<noteq> None"
    and g: "global_explanation
             (demo_fitted_self\<lparr>local_explanation := [''B'' \<mapsto> demo_horizon, ''C'' \<mapsto> demo_horizon],
                          global_explanation := [''B'' \<mapsto> [(''x'', Num 3)]]\<rparr>) ''C'' = None"
    and w: "(WARN, No_explanations_generated)
            \<in> set [(INFO, Calculating_explanations), (WARN, No_explanations_generated),
                    (INFO, Global_explanations_completed), (INFO, Local_explanations_completed)]"
    by (blast, metis, blast)
  from local_explanation_stored_before_empty_check[OF demo_fitted fb mb dist demo_ratio run]
  have b: "local_explanation
             (demo_fitted_self\<lparr>local_explanation := [''B'' \<mapsto> demo_horizon, ''C'' \<mapsto> demo_horizon],
                          global_explanation := [''B'' \<mapsto> [(''x'', Num 3)]]\<rparr>) ''B'' \<noteq> None"
    by blast
  from run c g w b have "\<exists>lg self'. explain_model demo_explainers demo_spec
                     [(''B'', demo_series), (''C'', demo_no_rows)] demo_fitted_self
                   = (lg, self', None)
         \<and> local_explanation self' ''C'' \<noteq> None
         \<and> local_explanation self' ''B'' \<noteq> None
         \<and> global_explanation self' ''C'' = None
         \<and> (WARN, No_explanations_generated) \<in> set lg"
    by blast
  with demo_fitted dist shap show ?thesis by blast
qed

end
